theory Spec2Isabelle
  imports Main "HOL-Library.Word" "HOL-Library.AList"
begin

unbundle bit_operations_syntax

section \<open>The consulrange lease plugin (plugins/consul\_range/plugin.go)\<close>

text \<open>
  The plugin keeps a table from the textual rendering of a client's hardware address to a
  lease record, an address allocator and a handle on a durable key/value store.
  \<open>Handler4\<close> serves one request under the plugin's mutex, so requests are modelled as
  running one after the other; \<open>setupConsulRange\<close> validates the arguments, loads the
  persisted records and re-registers each loaded address with the allocator.
\<close>

subsection \<open>Values of the Go standard library\<close>

type_synonym byte = "8 word"

text \<open>\<open>net.IP\<close> and \<open>net.HardwareAddr\<close> are byte slices; the nil slice is the empty list.\<close>

type_synonym IP = "byte list"
type_synonym HardwareAddr = "byte list"

text \<open>
  \<open>time.Duration\<close> is a signed 64-bit count of nanoseconds. An instant (\<open>time.Time\<close>) is
  modelled by its distance from the Unix epoch in nanoseconds. A reading of the clock is
  such an instant. \<open>time.Unix\<close> builds an instant from a 64-bit second count by adding
  the distance between the zero time and the epoch in 64-bit arithmetic, which wraps
  around for second counts above 9223371974719179007; the model writes the wrap-around
  out. Go's \<open>int\<close> is the 64-bit integer of the platforms the server runs on.
\<close>

type_synonym Duration = int
type_synonym Time = int

definition Second :: Duration where
  "Second = 1000000000"

definition maxDuration :: Duration where
  "maxDuration = 2 ^ 63 - 1"

definition minDuration :: Duration where
  "minDuration = - (2 ^ 63)"

definition wrap64 :: "int \<Rightarrow> int" where
  "wrap64 x = (x + 2 ^ 63) mod 2 ^ 64 - 2 ^ 63"

text \<open>Go's \<open>/\<close> and \<open>%\<close> truncate towards zero.\<close>

definition go_quot :: "int \<Rightarrow> int \<Rightarrow> int" where
  "go_quot d m = sgn d * sgn m * (\<bar>d\<bar> div \<bar>m\<bar>)"

definition go_rem :: "int \<Rightarrow> int \<Rightarrow> int" where
  "go_rem d m = sgn d * (\<bar>d\<bar> mod \<bar>m\<bar>)"

text \<open>
  \<open>Duration.Round\<close>: the nearest multiple of \<open>m\<close>, halves away from zero, the largest or
  smallest duration when the result does not fit.
\<close>

definition Duration_Round :: "Duration \<Rightarrow> Duration \<Rightarrow> Duration" where
  "Duration_Round d m =
     (if m \<le> 0 then d
      else if d < 0 then
        (let r = - go_rem d m in
         if r + r < m then d + r
         else (let d1 = wrap64 (d - m + r) in if d1 < d then d1 else minDuration))
      else
        (let r = go_rem d m in
         if r + r < m then d - r
         else (let d1 = wrap64 (d + m - r) in if d1 > d then d1 else maxDuration)))"

text \<open>The zero time of \<open>time.Time\<close> (1 January of year 1) lies this many seconds before the Unix epoch.\<close>

definition unixToInternal :: int where
  "unixToInternal = 62135596800"

text \<open>
  \<open>time.Unix\<close>: the nanoseconds are brought into one second, carrying into the seconds,
  and the instant is held as seconds since the zero time, all in 64-bit arithmetic.
\<close>

definition time_Unix :: "int \<Rightarrow> int \<Rightarrow> Time" where
  "time_Unix sec nsec =
     (let n = (if nsec < 0 \<or> 1000000000 \<le> nsec then go_quot nsec 1000000000 else 0);
          sec1 = wrap64 (sec + n);
          nsec1 = nsec - n * 1000000000;
          sec2 = (if nsec1 < 0 then wrap64 (sec1 - 1) else sec1);
          nsec2 = (if nsec1 < 0 then nsec1 + 1000000000 else nsec1)
      in (wrap64 (sec2 + unixToInternal) - unixToInternal) * 1000000000 + nsec2)"

text \<open>The second counts that \<open>time.Unix\<close> turns into an instant without wrap-around.\<close>

definition in_Unix_range :: "int \<Rightarrow> bool" where
  "in_Unix_range sec = (- (2 ^ 63) \<le> sec \<and> sec \<le> 9223371974719179007)"

definition Time_Add :: "Time \<Rightarrow> Duration \<Rightarrow> Time" where
  "Time_Add t d = t + d"

definition Time_Before :: "Time \<Rightarrow> Time \<Rightarrow> bool" where
  "Time_Before t u = (t < u)"

text \<open>\<open>Time.Unix\<close>: the whole seconds elapsed since the epoch.\<close>

definition Time_Unix :: "Time \<Rightarrow> int" where
  "Time_Unix t = t div 1000000000"

text \<open>\<open>Time.Round\<close>: the nearest multiple of \<open>d\<close> since the zero time, halves up.\<close>

definition Time_Round :: "Time \<Rightarrow> Duration \<Rightarrow> Time" where
  "Time_Round t d =
     (if d \<le> 0 then t
      else (let r = (t + unixToInternal * 1000000000) mod d in
            if r + r < d then t - r else t + (d - r)))"

text \<open>\<open>HardwareAddr.String\<close>: lower-case hex octets separated by colons, the empty string for no octets.\<close>

definition hexDigit :: "nat \<Rightarrow> char" where
  "hexDigit n = ''0123456789abcdef'' ! n"

definition hexByte :: "byte \<Rightarrow> string" where
  "hexByte b = [hexDigit (unat (drop_bit 4 b)), hexDigit (unat (b AND 0xF))]"

fun HardwareAddr_String :: "HardwareAddr \<Rightarrow> string" where
  "HardwareAddr_String [] = []"
| "HardwareAddr_String [b] = hexByte b"
| "HardwareAddr_String (b # bs) = hexByte b @ CHR '':'' # HardwareAddr_String bs"

text \<open>\<open>IP.To4\<close>: the four-byte form of an IPv4 address (also of one held in sixteen bytes), nil otherwise.\<close>

fun isZeros :: "byte list \<Rightarrow> bool" where
  "isZeros [] = True"
| "isZeros (b # bs) = (b = 0 \<and> isZeros bs)"

definition To4 :: "IP \<Rightarrow> IP" where
  "To4 ip =
     (if length ip = 4 then ip
      else if length ip = 16 \<and> isZeros (take 10 ip) \<and> ip ! 10 = 0xff \<and> ip ! 11 = 0xff
      then drop 12 ip
      else [])"

text \<open>
  \<open>IP.String\<close> prints \<open><nil>\<close> for no bytes, a dotted quad for an IPv4 address in either
  form, the IPv6 text for any other sixteen bytes, and \<open>?\<close> followed by the bytes in hex
  for any other length. The plugin only compares two such texts. The text is kept
  structured here: two of these values are equal exactly when the printed strings are.
\<close>

datatype IPText = NilText | DottedQuad byte byte byte byte | IPv6Text "byte list" | BadText "byte list"

definition IP_String :: "IP \<Rightarrow> IPText" where
  "IP_String ip =
     (if length ip = 0 then NilText
      else if length ip \<noteq> 4 \<and> length ip \<noteq> 16 then BadText ip
      else (case To4 ip of
              [a, b, c, d] \<Rightarrow> DottedQuad a b c d
            | _ \<Rightarrow> IPv6Text ip))"

text \<open>\<open>binary.BigEndian.Uint32\<close> panics on fewer than four bytes.\<close>

fun BigEndian_Uint32 :: "byte list \<Rightarrow> nat option" where
  "BigEndian_Uint32 (b0 # b1 # b2 # b3 # bs) =
     Some (unat b3 + 256 * unat b2 + 65536 * unat b1 + 16777216 * unat b0)"
| "BigEndian_Uint32 bs = None"

text \<open>\<open>binary.BigEndian.PutUint32\<close> of a 32-bit value: its four bytes, the highest first.\<close>

definition BigEndian_PutUint32 :: "nat \<Rightarrow> byte list" where
  "BigEndian_PutUint32 n =
     [of_nat (n div 16777216), of_nat (n div 65536), of_nat (n div 256), of_nat n]"

text \<open>The conversion of a 64-bit integer to \<open>uint32\<close> keeps the low 32 bits.\<close>

definition uint32 :: "int \<Rightarrow> nat" where
  "uint32 x = nat (x mod 4294967296)"

text \<open>The conversion of a byte slice to a Go string keeps the bytes.\<close>

definition string_of_bytes :: "byte list \<Rightarrow> string" where
  "string_of_bytes bs = map (\<lambda>b. char_of (unat b)) bs"

definition bytes_of_string :: "string \<Rightarrow> byte list" where
  "bytes_of_string s = map (\<lambda>c. of_nat (of_char c)) s"

text \<open>\<open>strings.TrimRight\<close> with the cutset of the NUL byte.\<close>

definition TrimRight_NUL :: "string \<Rightarrow> string" where
  "TrimRight_NUL s = rev (dropWhile (\<lambda>c. c = CHR 0x00) (rev s))"

record IPNet =
  IP :: IP
  Mask :: "byte list"

subsection \<open>Errors\<close>

datatype error =
    External string
  | InvalidNumberOfArguments nat
  | ConsulURLEmpty
  | ConsulKVPrefixEmpty
  | InvalidIPv4Address string
  | RangeStartNotLower
  | CouldNotCreateAllocator error
  | InvalidLeaseDuration string
  | FailedToCreateClient error
  | CouldNotLoadRecords error
  | FailedToReallocate IP error
  | DidNotReallocate IP IP
  | Panic

subsection \<open>The plugin's data\<close>

record Record =
  IP :: IP
  Expires :: int
  Hostname :: string

text \<open>
  \<open>Recordsv4\<close> is a Go map from the hardware address text to a pointer to a record; every
  key has a record of its own, so the map is modelled with the records as values; it is
  an allocated map, as \<open>loadRecords\<close> returns one. The
  allocator is an interface value: its state is \<open>'a\<close> and its \<open>Allocate\<close> method is passed
  to the functions that call it.
\<close>

record ('a, 'c) PluginState =
  Recordsv4 :: "string \<rightharpoonup> Record"
  LeaseTime :: Duration
  allocator :: 'a
  consulURL :: string
  consulKVPrefix :: string
  consulClient :: 'c

text \<open>
  Modelled from the spec: the Address Allocator (package allocators) is not among the
  sources. \<open>Allocate\<close> takes a hint and either fails, leaving the allocator as it was, or
  returns an address together with the allocator that has it marked as taken.
\<close>

type_synonym 'a Allocate = "'a \<Rightarrow> IPNet \<Rightarrow> error + IPNet \<times> 'a"

subsection \<open>The durable record store\<close>

text \<open>
  The store holds one record per key prefix and hardware address text. \<open>upserts\<close> lists
  the writes the store was asked for, in order, whether or not it accepted them.
\<close>

record Store =
  kv :: "string \<times> string \<rightharpoonup> Record"
  upserts :: "(string \<times> string \<times> Record) list"

text \<open>
  Modelled from the spec: \<open>saveIPAddress\<close> is a method of the plugin defined outside
  plugin.go. It is the store's \<open>Upsert(prefix, hwAddr, Record) -> ok | Error\<close>: when the
  store accepts the write the record is what the store holds for that client, when it
  fails the store holds what it held. \<open>outcome\<close> is the answer of the store to this write.
\<close>

definition saveIPAddress ::
  "error option \<Rightarrow> Store \<Rightarrow> string \<Rightarrow> HardwareAddr \<Rightarrow> Record \<Rightarrow> error option \<times> Store" where
  "saveIPAddress outcome st prefix mac rec =
     (let k = (prefix, HardwareAddr_String mac);
          st1 = st\<lparr>upserts := upserts st @ [(prefix, HardwareAddr_String mac, rec)]\<rparr>
      in case outcome of
           None \<Rightarrow> (None, st1\<lparr>kv := (kv st1)(k \<mapsto> rec)\<rparr>)
         | Some e \<Rightarrow> (Some e, st1))"

subsection \<open>DHCPv4 messages\<close>

text \<open>
  The options of a message map an option code to the bytes of the option. The lease time
  option holds a duration as \<open>uint32(d / time.Second)\<close> in four bytes; \<open>HostName\<close> is the
  text of the host name option without trailing NUL bytes, empty when the message has none.
  The option map of a response is an allocated map, as in every reply the server builds.
\<close>

record DHCPv4 =
  ClientHWAddr :: HardwareAddr
  YourIPAddr :: IP
  Options :: "nat \<rightharpoonup> byte list"

definition OptionHostName :: nat where
  "OptionHostName = 12"

definition OptionIPAddressLeaseTime :: nat where
  "OptionIPAddressLeaseTime = 51"

definition GetString :: "nat \<Rightarrow> (nat \<rightharpoonup> byte list) \<Rightarrow> string" where
  "GetString code opts = (case opts code of None \<Rightarrow> [] | Some bs \<Rightarrow> string_of_bytes bs)"

definition HostName :: "DHCPv4 \<Rightarrow> string" where
  "HostName d = TrimRight_NUL (GetString OptionHostName (Options d))"

definition Duration_ToBytes :: "Duration \<Rightarrow> byte list" where
  "Duration_ToBytes d = BigEndian_PutUint32 (uint32 (go_quot d Second))"

definition OptIPAddressLeaseTime :: "Duration \<Rightarrow> nat \<times> byte list" where
  "OptIPAddressLeaseTime d = (OptionIPAddressLeaseTime, Duration_ToBytes d)"

definition Options_Update :: "(nat \<rightharpoonup> byte list) \<Rightarrow> nat \<times> byte list \<Rightarrow> (nat \<rightharpoonup> byte list)" where
  "Options_Update opts opt = opts(fst opt \<mapsto> snd opt)"

subsection \<open>Handler4\<close>

datatype LogEvent =
    NewMAC string
  | CouldNotAllocate string error
  | SaveFailed string error
  | CouldNotPersist string error
  | FoundIP IP string

text \<open>Lines 85 to 88: the address and the lease time written into the response.\<close>

definition respond :: "Duration \<Rightarrow> Record \<Rightarrow> DHCPv4 \<Rightarrow> DHCPv4" where
  "respond lt record resp =
     resp\<lparr>YourIPAddr := Record.IP record,
          Options := Options_Update (Options resp)
                       (OptIPAddressLeaseTime (Duration_Round lt Second))\<rparr>"

record ('a, 'c) Outcome =
  response :: "DHCPv4 option"
  stop :: bool
  plugin :: "('a, 'c) PluginState"
  store :: Store
  logged :: "LogEvent list"

text \<open>
  \<open>now1\<close> and \<open>now2\<close> are what the first and the second call of \<open>time.Now\<close> return during
  this request (line 64, or lines 76 and 77); \<open>outcome\<close> is the store's answer to the write
  of this request, if one is made.
\<close>

definition Handler4 ::
  "'a Allocate \<Rightarrow> Time \<Rightarrow> Time \<Rightarrow> error option \<Rightarrow> ('a, 'c) PluginState \<Rightarrow> Store \<Rightarrow>
   DHCPv4 \<Rightarrow> DHCPv4 \<Rightarrow> ('a, 'c) Outcome" where
  "Handler4 Allocate now1 now2 outcome p st req resp =
     (let mac = HardwareAddr_String (ClientHWAddr req);
          hostname = HostName req
      in case Recordsv4 p mac of
           None \<Rightarrow>
             (case Allocate (allocator p) \<lparr>IPNet.IP = [], Mask = []\<rparr> of
                Inl err \<Rightarrow>
                  \<lparr>response = None, stop = True, plugin = p, store = st,
                   logged = [NewMAC mac, CouldNotAllocate mac err]\<rparr>
              | Inr (ip, a') \<Rightarrow>
                  (let rec = \<lparr>Record.IP = To4 (IPNet.IP ip),
                              Expires = Time_Unix (Time_Add now1 (LeaseTime p)),
                              Hostname = hostname\<rparr>;
                       saved = saveIPAddress outcome st (consulKVPrefix p) (ClientHWAddr req) rec
                   in \<lparr>response = Some (respond (LeaseTime p) rec resp), stop = False,
                       plugin = p\<lparr>Recordsv4 := (Recordsv4 p)(mac \<mapsto> rec), allocator := a'\<rparr>,
                       store = snd saved,
                       logged = NewMAC mac #
                         (case fst saved of Some err \<Rightarrow> [SaveFailed mac err] | None \<Rightarrow> []) @
                         [FoundIP (Record.IP rec) mac]\<rparr>))
         | Some record \<Rightarrow>
             (let expiry = time_Unix (Expires record) 0 in
              if Time_Before expiry (Time_Add now1 (LeaseTime p)) then
                (let record' = record\<lparr>Expires := Time_Unix (Time_Round (Time_Add now2 (LeaseTime p)) Second),
                                      Hostname := hostname\<rparr>;
                     saved = saveIPAddress outcome st (consulKVPrefix p) (ClientHWAddr req) record'
                 in \<lparr>response = Some (respond (LeaseTime p) record' resp), stop = False,
                     plugin = p\<lparr>Recordsv4 := (Recordsv4 p)(mac \<mapsto> record')\<rparr>,
                     store = snd saved,
                     logged =
                       (case fst saved of Some err \<Rightarrow> [CouldNotPersist mac err] | None \<Rightarrow> []) @
                       [FoundIP (Record.IP record') mac]\<rparr>)
              else
                \<lparr>response = Some (respond (LeaseTime p) record resp), stop = False,
                 plugin = p, store = st, logged = [FoundIP (Record.IP record) mac]\<rparr>))"

subsection \<open>setupConsulRange\<close>

text \<open>
  What setup calls outside plugin.go is passed to it: the parsers of the standard library,
  the constructor of the bitmap allocator and the allocator's \<open>Allocate\<close>, the constructor
  of the store client, and \<open>loadRecords\<close>, which returns the loaded Go map as the list of
  its entries (a later entry for a key already listed is not part of the map).
\<close>

record ('a, 'c) Env =
  ParseIP :: "string \<Rightarrow> IP"
  ParseDuration :: "string \<Rightarrow> error + Duration"
  NewIPv4Allocator :: "IP \<Rightarrow> IP \<Rightarrow> error + 'a"
  allocator_Allocate :: "'a Allocate"
  NewClient :: "string \<Rightarrow> error + 'c"
  loadRecords :: "'c \<Rightarrow> string \<Rightarrow> error + (string \<times> Record) list"

text \<open>Lines 152 to 160: the loop over the loaded records, in the order the map yields them.\<close>

fun reallocate :: "'a Allocate \<Rightarrow> 'a \<Rightarrow> Record list \<Rightarrow> error + 'a" where
  "reallocate Allocate a [] = Inr a"
| "reallocate Allocate a (v # vs) =
     (case Allocate a \<lparr>IPNet.IP = Record.IP v, Mask = []\<rparr> of
        Inl err \<Rightarrow> Inl (FailedToReallocate (Record.IP v) err)
      | Inr (ip, a') \<Rightarrow>
          if IP_String (IPNet.IP ip) \<noteq> IP_String (Record.IP v)
          then Inl (DidNotReallocate (Record.IP v) (IPNet.IP ip))
          else reallocate Allocate a' vs)"

definition setupConsulRange :: "('a, 'c) Env \<Rightarrow> string list \<Rightarrow> error + ('a, 'c) PluginState" where
  "setupConsulRange env args =
     (if length args < 5 then Inl (InvalidNumberOfArguments (length args))
      else let consulURL = args ! 0 in
      if consulURL = [] then Inl ConsulURLEmpty
      else let consulKVPrefix = args ! 1 in
      if consulKVPrefix = [] then Inl ConsulKVPrefixEmpty
      else let ipRangeStart = ParseIP env (args ! 2) in
      if To4 ipRangeStart = [] then Inl (InvalidIPv4Address (args ! 2))
      else let ipRangeEnd = ParseIP env (args ! 3) in
      if To4 ipRangeEnd = [] then Inl (InvalidIPv4Address (args ! 3))
      else
        (case (BigEndian_Uint32 (To4 ipRangeStart), BigEndian_Uint32 (To4 ipRangeEnd)) of
           (Some s, Some e) \<Rightarrow>
             if s \<ge> e then Inl RangeStartNotLower
             else
               (case NewIPv4Allocator env ipRangeStart ipRangeEnd of
                  Inl err \<Rightarrow> Inl (CouldNotCreateAllocator err)
                | Inr a \<Rightarrow>
                    (case ParseDuration env (args ! 4) of
                       Inl err \<Rightarrow> Inl (InvalidLeaseDuration (args ! 4))
                     | Inr lt \<Rightarrow>
                         (case NewClient env consulURL of
                            Inl err \<Rightarrow> Inl (FailedToCreateClient err)
                          | Inr client \<Rightarrow>
                              (case loadRecords env client consulKVPrefix of
                                 Inl err \<Rightarrow> Inl (CouldNotLoadRecords err)
                               | Inr recs \<Rightarrow>
                                   (case reallocate (allocator_Allocate env) a (map snd (AList.clearjunk recs)) of
                                      Inl err \<Rightarrow> Inl err
                                    | Inr a' \<Rightarrow>
                                        Inr \<lparr>Recordsv4 = map_of recs, LeaseTime = lt,
                                             allocator = a', consulURL = consulURL,
                                             consulKVPrefix = consulKVPrefix,
                                             consulClient = client\<rparr>)))))
         | _ \<Rightarrow> Inl Panic))"

subsection \<open>Requests served one after the other\<close>

text \<open>
  A call of the handler with what it reads from outside: the two clock readings, the
  store's answer to its write, and the two messages.
\<close>

record Call =
  clock1 :: Time
  clock2 :: Time
  write_result :: "error option"
  request :: DHCPv4
  reply :: DHCPv4

definition serve :: "'a Allocate \<Rightarrow> ('a, 'c) PluginState \<times> Store \<Rightarrow> Call \<Rightarrow> ('a, 'c) Outcome" where
  "serve Allocate w c =
     Handler4 Allocate (clock1 c) (clock2 c) (write_result c) (fst w) (snd w) (request c) (reply c)"

definition client_of :: "Call \<Rightarrow> string" where
  "client_of c = HardwareAddr_String (ClientHWAddr (request c))"

fun run :: "'a Allocate \<Rightarrow> ('a, 'c) PluginState \<times> Store \<Rightarrow> Call list \<Rightarrow> ('a, 'c) PluginState \<times> Store" where
  "run Allocate w [] = w"
| "run Allocate w (c # cs) = run Allocate (plugin (serve Allocate w c), store (serve Allocate w c)) cs"

text \<open>The clients that were answered, each with the address written into its response.\<close>

fun answers :: "'a Allocate \<Rightarrow> ('a, 'c) PluginState \<times> Store \<Rightarrow> Call list \<Rightarrow> (string \<times> IP) list" where
  "answers Allocate w [] = []"
| "answers Allocate w (c # cs) =
     (case response (serve Allocate w c) of
        None \<Rightarrow> []
      | Some r \<Rightarrow> [(client_of c, YourIPAddr r)]) @
     answers Allocate (plugin (serve Allocate w c), store (serve Allocate w c)) cs"

subsection \<open>Properties of tables, allocators and stores\<close>

text \<open>
  Modelled from the spec: the contract of the Address Allocator, "no address returned twice
  without an intervening release" (the plugin never releases). \<open>taken\<close> reads off an
  allocator the addresses it has marked; an address that \<open>Allocate\<close> returns is an IPv4
  address that was not marked before the call and is marked after it, and no mark is lost.
\<close>

definition allocator_contract :: "'a Allocate \<Rightarrow> ('a \<Rightarrow> IP set) \<Rightarrow> bool" where
  "allocator_contract Allocate taken =
     (\<forall>a hint ip a'. Allocate a hint = Inr (ip, a') \<longrightarrow>
        To4 (IPNet.IP ip) \<noteq> [] \<and> To4 (IPNet.IP ip) \<notin> taken a \<and>
        insert (To4 (IPNet.IP ip)) (taken a) \<subseteq> taken a')"

text \<open>
  Invariant I3. Two addresses are the same address when they print the same, whether they
  are held in four bytes or in sixteen.
\<close>

definition injective_table :: "(string \<rightharpoonup> Record) \<Rightarrow> bool" where
  "injective_table tbl =
     (\<forall>h1 h2 r1 r2. tbl h1 = Some r1 \<and> tbl h2 = Some r2 \<and> h1 \<noteq> h2 \<longrightarrow>
        IP_String (Record.IP r1) \<noteq> IP_String (Record.IP r2))"

definition distinct_answers :: "(string \<times> IP) list \<Rightarrow> bool" where
  "distinct_answers xs =
     (\<forall>h1 a1 h2 a2. (h1, a1) \<in> set xs \<and> (h2, a2) \<in> set xs \<and> h1 \<noteq> h2 \<longrightarrow>
        IP_String a1 \<noteq> IP_String a2)"

text \<open>
  Invariants I2 and I3 together, on four-byte forms: every record of the table holds an
  IPv4 address that the allocator has marked, and no two clients hold the same one.
\<close>

definition table_inv :: "('a \<Rightarrow> IP set) \<Rightarrow> ('a, 'c) PluginState \<Rightarrow> bool" where
  "table_inv taken p =
     ((\<forall>h r. Recordsv4 p h = Some r \<longrightarrow>
         To4 (Record.IP r) \<noteq> [] \<and> To4 (Record.IP r) \<in> taken (allocator p)) \<and>
      (\<forall>h1 h2 r1 r2. Recordsv4 p h1 = Some r1 \<and> Recordsv4 p h2 = Some r2 \<and> h1 \<noteq> h2 \<longrightarrow>
         To4 (Record.IP r1) \<noteq> To4 (Record.IP r2)))"

text \<open>
  The store is never ahead of the table: a client with a durable record has a record in
  the table whose expiry is not earlier. This is so once the table has been loaded from
  the store.
\<close>

definition store_behind :: "('a, 'c) PluginState \<Rightarrow> Store \<Rightarrow> bool" where
  "store_behind p st =
     (\<forall>h r. kv st (consulKVPrefix p, h) = Some r \<longrightarrow>
        (\<exists>r'. Recordsv4 p h = Some r' \<and> Expires r \<le> Expires r'))"

text \<open>The clock readings of a sequence of calls, in the order they are taken.\<close>

definition readings :: "Call list \<Rightarrow> Time list" where
  "readings cs = concat (map (\<lambda>c. [clock1 c, clock2 c]) cs)"

text \<open>Every expiry on file is a second count that \<open>time.Unix\<close> does not wrap.\<close>

definition table_in_range :: "('a, 'c) PluginState \<Rightarrow> bool" where
  "table_in_range p = (\<forall>h r. Recordsv4 p h = Some r \<longrightarrow> in_Unix_range (Expires r))"

text \<open>
  Every expiry that the calls compute with the lease duration \<open>lt\<close>, for a new record
  (line 64) or for a renewal (line 77), is such a second count.
\<close>

definition calls_in_range :: "Duration \<Rightarrow> Call list \<Rightarrow> bool" where
  "calls_in_range lt cs =
     (\<forall>c \<in> set cs. in_Unix_range (Time_Unix (Time_Add (clock1 c) lt)) \<and>
                      in_Unix_range (Time_Unix (Time_Round (Time_Add (clock2 c) lt) Second)))"

subsection \<open>The example scenario\<close>

text \<open>
  The scenario of the specification: the range 10.0.0.2 to 10.0.0.4 and a lease duration
  of one hour. The sample allocator keeps the addresses it has handed out; a hinted
  address of the range is granted while it is free, otherwise the first free address of
  the range is, and with no free address left the call fails.
\<close>

definition example_pool :: "IP list" where
  "example_pool = [[10, 0, 0, 2], [10, 0, 0, 3], [10, 0, 0, 4]]"

definition example_Allocate :: "IP list Allocate" where
  "example_Allocate taken hint =
     (if To4 (IPNet.IP hint) \<in> set example_pool \<and> To4 (IPNet.IP hint) \<notin> set taken
      then Inr (\<lparr>IPNet.IP = To4 (IPNet.IP hint), Mask = [255, 255, 255, 255]\<rparr>,
                To4 (IPNet.IP hint) # taken)
      else (case filter (\<lambda>a. a \<notin> set taken) example_pool of
              [] \<Rightarrow> Inl (External ''no address available'')
            | a # as \<Rightarrow> Inr (\<lparr>IPNet.IP = a, Mask = [255, 255, 255, 255]\<rparr>, a # taken)))"

definition example_record :: Record where
  "example_record = \<lparr>Record.IP = [10, 0, 0, 2], Expires = 4600, Hostname = ''alpha''\<rparr>"

definition example_lease :: "byte \<Rightarrow> Record" where
  "example_lease n = \<lparr>Record.IP = [10, 0, 0, n], Expires = 4600, Hostname = ''alpha''\<rparr>"

definition example_plugin :: "(IP list, unit) PluginState" where
  "example_plugin =
     \<lparr>Recordsv4 = [''aa'' \<mapsto> example_record], LeaseTime = 3600000000000,
      allocator = [[10, 0, 0, 2]], consulURL = ''http://127.0.0.1:8500'',
      consulKVPrefix = ''dhcp/'', consulClient = ()\<rparr>"

definition example_store :: Store where
  "example_store = \<lparr>kv = [(''dhcp/'', ''aa'') \<mapsto> example_record], upserts = []\<rparr>"

definition example_request :: "HardwareAddr \<Rightarrow> string \<Rightarrow> DHCPv4" where
  "example_request mac name =
     \<lparr>ClientHWAddr = mac, YourIPAddr = [],
      Options = [OptionHostName \<mapsto> bytes_of_string name]\<rparr>"

definition example_reply :: DHCPv4 where
  "example_reply = \<lparr>ClientHWAddr = [], YourIPAddr = [], Options = Map.empty\<rparr>"

definition example_call :: "Time \<Rightarrow> HardwareAddr \<Rightarrow> string \<Rightarrow> Call" where
  "example_call t mac name =
     \<lparr>clock1 = t, clock2 = t, write_result = None, request = example_request mac name,
      reply = example_reply\<rparr>"

text \<open>\<open>net.ParseIP\<close> on the two literals of the scenario; it returns the sixteen-byte form.\<close>

definition example_ParseIP :: "string \<Rightarrow> IP" where
  "example_ParseIP s =
     (if s = ''10.0.0.2'' then [0, 0, 0, 0, 0, 0, 0, 0, 0, 0, 0xff, 0xff, 10, 0, 0, 2]
      else if s = ''10.0.0.4'' then [0, 0, 0, 0, 0, 0, 0, 0, 0, 0, 0xff, 0xff, 10, 0, 0, 4]
      else [])"

definition example_ParseDuration :: "string \<Rightarrow> error + Duration" where
  "example_ParseDuration s =
     (if s = ''1h'' then Inr 3600000000000 else Inl (External ''invalid duration''))"

definition example_env :: "(string \<times> Record) list \<Rightarrow> (IP list, unit) Env" where
  "example_env persisted =
     \<lparr>ParseIP = example_ParseIP, ParseDuration = example_ParseDuration,
      NewIPv4Allocator = (\<lambda>start end. Inr []), allocator_Allocate = example_Allocate,
      NewClient = (\<lambda>url. Inr ()), loadRecords = (\<lambda>client prefix. Inr persisted)\<rparr>"

definition example_args :: "string list" where
  "example_args = [''http://127.0.0.1:8500'', ''dhcp/'', ''10.0.0.2'', ''10.0.0.4'', ''1h'']"

section \<open>Auxiliary facts\<close>

subsection \<open>Rounding to whole seconds\<close>

lemma round_second: "Time_Unix (Time_Round t Second) = (t + 500000000) div 1000000000"
proof -
  define q where "q = t div 1000000000"
  define r where "r = t mod 1000000000"
  have t: "t = q * 1000000000 + r" and r: "0 \<le> r" "r < 1000000000"
    by (simp_all add: q_def r_def)
  have m: "(t + unixToInternal * 1000000000) mod 1000000000 = r"
    by (simp add: r_def)
  show ?thesis
  proof (cases "r + r < 1000000000")
    case True
    have "(t + 500000000) div 1000000000 = q"
      using r True unfolding t by simp
    moreover have "(t - r) div 1000000000 = q" unfolding t by simp
    ultimately show ?thesis using True m
      by (simp add: Time_Unix_def Time_Round_def Second_def Let_def)
  next
    case False
    have "t + 500000000 = (q + 1) * 1000000000 + (r - 500000000)" unfolding t by simp
    moreover have "0 \<le> r - 500000000" "r - 500000000 < 1000000000" using r False by simp_all
    ultimately have "(t + 500000000) div 1000000000 = q + 1"
      by (metis div_pos_pos_trivial div_mult_self3 add.commute zero_neq_numeral add_cancel_left_right)
    moreover have "t + (1000000000 - r) = (q + 1) * 1000000000" unfolding t by simp
    hence "(t + (1000000000 - r)) div 1000000000 = q + 1" by simp
    ultimately show ?thesis using False m
      by (simp add: Time_Unix_def Time_Round_def Second_def Let_def)
  qed
qed

subsection \<open>Addresses and their text\<close>

lemma To4_length: "To4 x \<noteq> [] \<Longrightarrow> length (To4 x) = 4"
  by (auto simp: To4_def split: if_splits)

lemma To4_idem: "To4 (To4 x) = To4 x"
  by (auto simp: To4_def)

lemma four_bytes: "length (xs :: byte list) = 4 \<Longrightarrow> \<exists>a b c d. xs = [a, b, c, d]"
  by (cases xs; simp; (rename_tac x1 l1, case_tac l1; simp; (rename_tac x2 l2, case_tac l2; simp; (rename_tac x3 l3, case_tac l3; simp))))

lemma IP_String_To4:
  assumes "To4 x \<noteq> []"
  shows "\<exists>a b c d. To4 x = [a, b, c, d] \<and> IP_String x = DottedQuad a b c d"
proof -
  obtain a b c d where q: "To4 x = [a, b, c, d]"
    using four_bytes [OF To4_length [OF assms]] by blast
  have "length x = 4 \<or> length x = 16"
    using assms by (auto simp: To4_def split: if_splits)
  with q show ?thesis by (auto simp: IP_String_def)
qed

lemma IP_String_DottedQuad:
  "IP_String y = DottedQuad a b c d \<Longrightarrow> To4 y = [a, b, c, d]"
  by (auto simp: IP_String_def split: if_splits list.splits)

lemma IP_String_eq_To4:
  assumes "IP_String x = IP_String y" and "To4 x \<noteq> []"
  shows "To4 y = To4 x"
proof -
  obtain a b c d where x: "To4 x = [a, b, c, d]" "IP_String x = DottedQuad a b c d"
    using IP_String_To4 [OF assms(2)] by blast
  from x(2) assms(1) have "IP_String y = DottedQuad a b c d" by simp
  then have "To4 y = [a, b, c, d]" by (rule IP_String_DottedQuad)
  with x(1) show ?thesis by simp
qed

subsection \<open>One call of the handler\<close>

lemma wrap64_id: "- (2 ^ 63) \<le> x \<Longrightarrow> x < 2 ^ 63 \<Longrightarrow> wrap64 x = x"
  by (simp add: wrap64_def)

lemma time_Unix_0:
  "time_Unix sec 0 = (wrap64 (wrap64 sec + unixToInternal) - unixToInternal) * 1000000000"
  by (simp add: time_Unix_def Let_def)

lemma time_Unix_in_range: "in_Unix_range E \<Longrightarrow> time_Unix E 0 = E * 1000000000"
  by (simp add: time_Unix_0 in_Unix_range_def unixToInternal_def wrap64_id)

lemma renewal_test_in_range:
  "in_Unix_range E \<Longrightarrow> Time_Before (time_Unix E 0) t = (E * 1000000000 < t)"
  by (simp add: time_Unix_in_range Time_Before_def)

lemma string_of_bytes_of_string: "string_of_bytes (bytes_of_string s) = s"
  by (induction s) (simp_all add: string_of_bytes_def bytes_of_string_def unat_of_nat)

lemma example_HostName:
  "HostName \<lparr>ClientHWAddr = mac, YourIPAddr = ip,
     Options = [OptionHostName \<mapsto> bytes_of_string name]\<rparr> = TrimRight_NUL name"
  by (simp add: HostName_def GetString_def string_of_bytes_of_string)

lemma one_hour_ToBytes: "Duration_ToBytes 3600000000000 = [0, 0, 14, 16]"
  by (simp add: Duration_ToBytes_def BigEndian_PutUint32_def uint32_def go_quot_def Second_def)

lemmas Handler4_unfold =
  Handler4_def Let_def saveIPAddress_def respond_def Time_Add_def

lemmas time_unfold =
  time_Unix_0 Time_Before_def wrap64_def unixToInternal_def

lemmas example_defs =
  example_plugin_def example_record_def example_store_def example_request_def example_reply_def
  example_HostName TrimRight_NUL_def hexByte_def hexDigit_def one_hour_ToBytes time_unfold

lemma step_record_kept:
  assumes "Recordsv4 p h = Some r"
  shows "\<exists>e hn. Recordsv4 (plugin (Handler4 Allocate now1 now2 outcome p st req resp)) h =
           Some (r\<lparr>Expires := e, Hostname := hn\<rparr>)"
proof (cases "h = HardwareAddr_String (ClientHWAddr req) \<and>
              Time_Before (time_Unix (Expires r) 0) (now1 + LeaseTime p)")
  case True
  with assms show ?thesis by (auto simp: Handler4_unfold)
next
  case False
  have "Recordsv4 (plugin (Handler4 Allocate now1 now2 outcome p st req resp)) h = Some r"
    using False assms by (auto simp: Handler4_unfold split: option.splits sum.splits)
  then show ?thesis
    by (intro exI [of _ "Expires r"] exI [of _ "Hostname r"]) simp
qed

lemma existing_response:
  assumes "Recordsv4 p (HardwareAddr_String (ClientHWAddr req)) = Some r"
  shows "response (Handler4 Allocate now1 now2 outcome p st req resp) =
           Some (resp\<lparr>YourIPAddr := Record.IP r,
             Options := (Options resp)(OptionIPAddressLeaseTime \<mapsto>
               Duration_ToBytes (Duration_Round (LeaseTime p) Second))\<rparr>) \<and>
         stop (Handler4 Allocate now1 now2 outcome p st req resp) = False"
  using assms by (simp add: Handler4_unfold Options_Update_def OptIPAddressLeaseTime_def)

lemma answered_in_table:
  assumes "response (Handler4 Allocate now1 now2 outcome p st req resp) = Some a"
  shows "\<exists>r. Recordsv4 (plugin (Handler4 Allocate now1 now2 outcome p st req resp))
           (HardwareAddr_String (ClientHWAddr req)) = Some r \<and> Record.IP r = YourIPAddr a"
  using assms by (auto simp: Handler4_unfold split: option.splits sum.splits if_splits)

lemma run_record_kept:
  "Recordsv4 (fst w) h = Some r \<Longrightarrow>
   \<exists>r'. Recordsv4 (fst (run Allocate w cs)) h = Some r' \<and> Record.IP r' = Record.IP r"
proof (induction cs arbitrary: w r)
  case Nil
  then show ?case by simp
next
  case (Cons c cs)
  obtain e hn where "Recordsv4 (plugin (serve Allocate w c)) h = Some (r\<lparr>Expires := e, Hostname := hn\<rparr>)"
    using step_record_kept [OF Cons.prems] unfolding serve_def by blast
  from Cons.IH [of "(plugin (serve Allocate w c), store (serve Allocate w c))", simplified, OF this]
  show ?case by simp
qed

lemma serve_answered_in_table:
  assumes "response (serve Allocate w c) = Some a"
  shows "\<exists>r. Recordsv4 (plugin (serve Allocate w c)) (client_of c) = Some r \<and>
           Record.IP r = YourIPAddr a"
  using answered_in_table [of Allocate _ _ _ "fst w" "snd w" "request c" "reply c" a] assms
  unfolding serve_def client_of_def by simp

subsection \<open>Setup\<close>

lemmas example_setup_defs =
  setupConsulRange_def example_env_def example_args_def example_ParseIP_def
  example_ParseDuration_def To4_def example_Allocate_def example_pool_def IP_String_def
  example_record_def Let_def AList.clearjunk.simps AList.delete_eq

lemma reallocate_append:
  "reallocate Allocate a (vs1 @ vs2) =
     (case reallocate Allocate a vs1 of Inl e \<Rightarrow> Inl e | Inr a1 \<Rightarrow> reallocate Allocate a1 vs2)"
  by (induction vs1 arbitrary: a) (auto split: sum.splits)

lemma setup_reaches_loop:
  assumes "5 \<le> length args" and "args ! 0 \<noteq> []" and "args ! 1 \<noteq> []"
    and "To4 (ParseIP env (args ! 2)) \<noteq> []" and "To4 (ParseIP env (args ! 3)) \<noteq> []"
    and "BigEndian_Uint32 (To4 (ParseIP env (args ! 2))) = Some s"
    and "BigEndian_Uint32 (To4 (ParseIP env (args ! 3))) = Some e" and "s < e"
    and "NewIPv4Allocator env (ParseIP env (args ! 2)) (ParseIP env (args ! 3)) = Inr a0"
    and "ParseDuration env (args ! 4) = Inr lt"
    and "NewClient env (args ! 0) = Inr client"
    and "loadRecords env client (args ! 1) = Inr recs"
  shows "setupConsulRange env args =
     (case reallocate (allocator_Allocate env) a0 (map snd (AList.clearjunk recs)) of
        Inl err \<Rightarrow> Inl err
      | Inr a' \<Rightarrow> Inr \<lparr>Recordsv4 = map_of recs, LeaseTime = lt, allocator = a',
                       consulURL = args ! 0, consulKVPrefix = args ! 1, consulClient = client\<rparr>)"
  using assms by (simp add: setupConsulRange_def Let_def split: sum.split)

subsection \<open>The table and the allocator\<close>

lemma reallocate_marks:
  assumes "allocator_contract Allocate taken"
  shows "reallocate Allocate a vs = Inr a' \<Longrightarrow>
         taken a \<subseteq> taken a' \<and>
         (\<forall>v \<in> set vs. To4 (Record.IP v) \<noteq> [] \<and> To4 (Record.IP v) \<in> taken a' \<and>
                         To4 (Record.IP v) \<notin> taken a) \<and>
         distinct (map (\<lambda>v. To4 (Record.IP v)) vs)"
proof (induction vs arbitrary: a)
  case Nil
  then show ?case by simp
next
  case (Cons v vs)
  from Cons.prems obtain ip a1 where
    al: "Allocate a \<lparr>IPNet.IP = Record.IP v, Mask = []\<rparr> = Inr (ip, a1)" and
    same: "IP_String (IPNet.IP ip) = IP_String (Record.IP v)" and
    rest: "reallocate Allocate a1 vs = Inr a'"
    by (auto split: sum.splits if_splits)
  from assms al have fresh: "To4 (IPNet.IP ip) \<noteq> []" "To4 (IPNet.IP ip) \<notin> taken a"
    "insert (To4 (IPNet.IP ip)) (taken a) \<subseteq> taken a1"
    unfolding allocator_contract_def by blast+
  from IP_String_eq_To4 [OF same fresh(1)] have v: "To4 (Record.IP v) = To4 (IPNet.IP ip)" .
  from Cons.IH [OF rest] have ih: "taken a1 \<subseteq> taken a'"
    "\<forall>v \<in> set vs. To4 (Record.IP v) \<noteq> [] \<and> To4 (Record.IP v) \<in> taken a' \<and>
        To4 (Record.IP v) \<notin> taken a1"
    "distinct (map (\<lambda>v. To4 (Record.IP v)) vs)"
    by blast+
  have "taken a \<subseteq> taken a'" using fresh(3) ih(1) by blast
  moreover have "To4 (Record.IP v) \<noteq> []" "To4 (Record.IP v) \<in> taken a'"
    "To4 (Record.IP v) \<notin> taken a"
    using v fresh ih(1) by auto
  moreover have "\<forall>u \<in> set vs. To4 (Record.IP u) \<notin> taken a \<and>
      To4 (Record.IP u) \<noteq> To4 (Record.IP v)"
    using ih(2) fresh(3) v by auto
  ultimately show ?case using ih(2,3) by auto
qed

lemma setup_success_form:
  assumes "setupConsulRange env args = Inr p"
  shows "\<exists>recs a0. Recordsv4 p = map_of recs \<and>
           reallocate (allocator_Allocate env) a0 (map snd (AList.clearjunk recs)) = Inr (allocator p)"
  using assms
  by (auto simp: setupConsulRange_def Let_def split: if_splits option.splits sum.splits) blast

lemma setup_table_inv:
  assumes "allocator_contract (allocator_Allocate env) taken"
    and "setupConsulRange env args = Inr p"
  shows "table_inv taken p"
proof -
  obtain recs a0 where tbl: "Recordsv4 p = map_of recs" and
    re: "reallocate (allocator_Allocate env) a0 (map snd (AList.clearjunk recs)) = Inr (allocator p)"
    using setup_success_form [OF assms(2)] by blast
  let ?cj = "AList.clearjunk recs"
  from reallocate_marks [OF assms(1) re]
  have marked: "\<forall>v \<in> set (map snd ?cj). To4 (Record.IP v) \<noteq> [] \<and>
      To4 (Record.IP v) \<in> taken (allocator p)"
    and dist: "distinct (map (\<lambda>v. To4 (Record.IP v)) (map snd ?cj))"
    by blast+
  have mem: "\<And>h r. Recordsv4 p h = Some r \<Longrightarrow> (h, r) \<in> set ?cj"
    unfolding tbl by (metis map_of_SomeD AList.map_of_clearjunk)
  from dist have inj: "inj_on (\<lambda>x. To4 (Record.IP (snd x))) (set ?cj)"
    by (simp add: distinct_map comp_def)
  show ?thesis
    unfolding table_inv_def
  proof (rule conjI; intro allI impI)
    fix h r assume "Recordsv4 p h = Some r"
    from mem [OF this] have "r \<in> set (map snd ?cj)" by force
    with marked show "To4 (Record.IP r) \<noteq> [] \<and> To4 (Record.IP r) \<in> taken (allocator p)"
      by blast
  next
    fix h1 h2 r1 r2
    assume a: "Recordsv4 p h1 = Some r1 \<and> Recordsv4 p h2 = Some r2 \<and> h1 \<noteq> h2"
    then have "(h1, r1) \<in> set ?cj" "(h2, r2) \<in> set ?cj" "(h1, r1) \<noteq> (h2, r2)"
      using mem by auto
    with inj show "To4 (Record.IP r1) \<noteq> To4 (Record.IP r2)"
      unfolding inj_on_def by fastforce
  qed
qed

lemma step_table_inv:
  assumes c: "allocator_contract Allocate taken" and inv: "table_inv taken p"
  shows "table_inv taken (plugin (Handler4 Allocate now1 now2 outcome p st req resp))"
proof (cases "Recordsv4 p (HardwareAddr_String (ClientHWAddr req))")
  case None
  show ?thesis
  proof (cases "Allocate (allocator p) \<lparr>IPNet.IP = [], Mask = []\<rparr>")
    case (Inl err)
    with None inv show ?thesis by (simp add: Handler4_unfold)
  next
    case (Inr x)
    obtain ip a' where x: "x = (ip, a')" by (cases x)
    from c Inr x have fresh: "To4 (IPNet.IP ip) \<noteq> []" "To4 (IPNet.IP ip) \<notin> taken (allocator p)"
      "insert (To4 (IPNet.IP ip)) (taken (allocator p)) \<subseteq> taken a'"
      unfolding allocator_contract_def by blast+
    let ?mac = "HardwareAddr_String (ClientHWAddr req)"
    let ?rec = "\<lparr>Record.IP = To4 (IPNet.IP ip), Expires = Time_Unix (now1 + LeaseTime p),
                 Hostname = HostName req\<rparr>"
    have out: "plugin (Handler4 Allocate now1 now2 outcome p st req resp) =
        p\<lparr>Recordsv4 := (Recordsv4 p)(?mac \<mapsto> ?rec), allocator := a'\<rparr>"
      using None Inr x by (simp add: Handler4_unfold)
    from inv have old: "\<And>h r. Recordsv4 p h = Some r \<Longrightarrow>
        To4 (Record.IP r) \<noteq> [] \<and> To4 (Record.IP r) \<in> taken (allocator p)"
      and oldinj: "\<And>h1 h2 r1 r2. Recordsv4 p h1 = Some r1 \<Longrightarrow> Recordsv4 p h2 = Some r2 \<Longrightarrow>
        h1 \<noteq> h2 \<Longrightarrow> To4 (Record.IP r1) \<noteq> To4 (Record.IP r2)"
      unfolding table_inv_def by blast+
    show ?thesis
      unfolding out table_inv_def
    proof (rule conjI; intro allI impI)
      fix h r
      assume "Recordsv4 (p\<lparr>Recordsv4 := (Recordsv4 p)(?mac \<mapsto> ?rec), allocator := a'\<rparr>) h = Some r"
      then have "(h = ?mac \<and> r = ?rec) \<or> Recordsv4 p h = Some r"
        by (auto split: if_splits)
      then show "To4 (Record.IP r) \<noteq> [] \<and> To4 (Record.IP r) \<in>
          taken (allocator (p\<lparr>Recordsv4 := (Recordsv4 p)(?mac \<mapsto> ?rec), allocator := a'\<rparr>))"
        using fresh old by (auto simp: To4_idem)
    next
      fix h1 h2 r1 r2
      assume "Recordsv4 (p\<lparr>Recordsv4 := (Recordsv4 p)(?mac \<mapsto> ?rec), allocator := a'\<rparr>) h1 = Some r1 \<and>
              Recordsv4 (p\<lparr>Recordsv4 := (Recordsv4 p)(?mac \<mapsto> ?rec), allocator := a'\<rparr>) h2 = Some r2 \<and>
              h1 \<noteq> h2"
      then have "(h1 = ?mac \<and> r1 = ?rec \<and> Recordsv4 p h2 = Some r2) \<or>
                 (h2 = ?mac \<and> r2 = ?rec \<and> Recordsv4 p h1 = Some r1) \<or>
                 (Recordsv4 p h1 = Some r1 \<and> Recordsv4 p h2 = Some r2 \<and> h1 \<noteq> h2)"
        by (auto split: if_splits)
      then show "To4 (Record.IP r1) \<noteq> To4 (Record.IP r2)"
      proof (elim disjE conjE)
        assume "h1 = ?mac" "r1 = ?rec" "Recordsv4 p h2 = Some r2"
        with old [of h2 r2] fresh(2) show ?thesis by (auto simp: To4_idem)
      next
        assume "h2 = ?mac" "r2 = ?rec" "Recordsv4 p h1 = Some r1"
        with old [of h1 r1] fresh(2) show ?thesis by (auto simp: To4_idem)
      next
        assume "Recordsv4 p h1 = Some r1" "Recordsv4 p h2 = Some r2" "h1 \<noteq> h2"
        then show ?thesis by (rule oldinj)
      qed
    qed
  qed
next
  case (Some r)
  from inv have old: "\<And>h r. Recordsv4 p h = Some r \<Longrightarrow>
      To4 (Record.IP r) \<noteq> [] \<and> To4 (Record.IP r) \<in> taken (allocator p)"
    and oldinj: "\<And>h1 h2 r1 r2. Recordsv4 p h1 = Some r1 \<Longrightarrow> Recordsv4 p h2 = Some r2 \<Longrightarrow>
      h1 \<noteq> h2 \<Longrightarrow> To4 (Record.IP r1) \<noteq> To4 (Record.IP r2)"
    unfolding table_inv_def by blast+
  have al: "allocator (plugin (Handler4 Allocate now1 now2 outcome p st req resp)) = allocator p"
    using Some by (simp add: Handler4_unfold)
  have kept: "\<And>h r'. Recordsv4 (plugin (Handler4 Allocate now1 now2 outcome p st req resp)) h = Some r'
      \<Longrightarrow> \<exists>r0. Recordsv4 p h = Some r0 \<and> Record.IP r' = Record.IP r0"
    using Some by (auto simp: Handler4_unfold split: if_splits)
  show ?thesis
    unfolding table_inv_def al
  proof (rule conjI; intro allI impI)
    fix h r'
    assume "Recordsv4 (plugin (Handler4 Allocate now1 now2 outcome p st req resp)) h = Some r'"
    from kept [OF this] old
    show "To4 (Record.IP r') \<noteq> [] \<and> To4 (Record.IP r') \<in> taken (allocator p)" by auto
  next
    fix h1 h2 r1 r2
    assume a: "Recordsv4 (plugin (Handler4 Allocate now1 now2 outcome p st req resp)) h1 = Some r1 \<and>
      Recordsv4 (plugin (Handler4 Allocate now1 now2 outcome p st req resp)) h2 = Some r2 \<and> h1 \<noteq> h2"
    then obtain q1 q2 where "Recordsv4 p h1 = Some q1" "Record.IP r1 = Record.IP q1"
      "Recordsv4 p h2 = Some q2" "Record.IP r2 = Record.IP q2"
      using kept by blast
    with a oldinj show "To4 (Record.IP r1) \<noteq> To4 (Record.IP r2)" by auto
  qed
qed

lemma run_table_inv:
  assumes "allocator_contract Allocate taken"
  shows "table_inv taken (fst w) \<Longrightarrow> table_inv taken (fst (run Allocate w cs))"
proof (induction cs arbitrary: w)
  case Nil
  then show ?case by simp
next
  case (Cons c cs)
  have "table_inv taken (plugin (serve Allocate w c))"
    unfolding serve_def by (rule step_table_inv [OF assms Cons.prems])
  then show ?case using Cons.IH [of "(plugin (serve Allocate w c), store (serve Allocate w c))"]
    by simp
qed

lemma table_inv_injective:
  assumes "table_inv taken p"
  shows "injective_table (Recordsv4 p)"
  unfolding injective_table_def
proof (intro allI impI)
  fix h1 h2 r1 r2
  assume a: "Recordsv4 p h1 = Some r1 \<and> Recordsv4 p h2 = Some r2 \<and> h1 \<noteq> h2"
  with assms have ne: "To4 (Record.IP r1) \<noteq> []" and d: "To4 (Record.IP r1) \<noteq> To4 (Record.IP r2)"
    unfolding table_inv_def by blast+
  show "IP_String (Record.IP r1) \<noteq> IP_String (Record.IP r2)"
  proof
    assume "IP_String (Record.IP r1) = IP_String (Record.IP r2)"
    from IP_String_eq_To4 [OF this ne] d show False by simp
  qed
qed

lemma answers_in_table:
  "(h, a) \<in> set (answers Allocate w cs) \<Longrightarrow>
   \<exists>r. Recordsv4 (fst (run Allocate w cs)) h = Some r \<and> Record.IP r = a"
proof (induction cs arbitrary: w)
  case Nil
  then show ?case by simp
next
  case (Cons c cs)
  let ?w = "(plugin (serve Allocate w c), store (serve Allocate w c))"
  show ?case
  proof (cases "response (serve Allocate w c)")
    case None
    with Cons.prems have "(h, a) \<in> set (answers Allocate ?w cs)" by simp
    from Cons.IH [OF this] show ?thesis by simp
  next
    case (Some x)
    with Cons.prems have "(h = client_of c \<and> a = YourIPAddr x) \<or>
        (h, a) \<in> set (answers Allocate ?w cs)"
      by auto
    then show ?thesis
    proof
      assume now: "h = client_of c \<and> a = YourIPAddr x"
      from serve_answered_in_table [OF Some] now
      obtain r where r: "Recordsv4 (fst ?w) h = Some r" "Record.IP r = a" by auto
      from run_record_kept [OF r(1), of Allocate cs] r(2) show ?thesis by auto
    next
      assume "(h, a) \<in> set (answers Allocate ?w cs)"
      from Cons.IH [OF this] show ?thesis by simp
    qed
  qed
qed

lemma injective_answers:
  assumes "injective_table (Recordsv4 (fst (run Allocate w cs)))"
  shows "distinct_answers (answers Allocate w cs)"
  unfolding distinct_answers_def
proof (intro allI impI)
  fix h1 a1 h2 a2
  assume a: "(h1, a1) \<in> set (answers Allocate w cs) \<and> (h2, a2) \<in> set (answers Allocate w cs) \<and> h1 \<noteq> h2"
  then obtain r1 r2 where "Recordsv4 (fst (run Allocate w cs)) h1 = Some r1" "Record.IP r1 = a1"
    "Recordsv4 (fst (run Allocate w cs)) h2 = Some r2" "Record.IP r2 = a2"
    using answers_in_table by blast
  with assms a show "IP_String a1 \<noteq> IP_String a2"
    unfolding injective_table_def by blast
qed

lemma example_pool_To4: "a \<in> set example_pool \<Longrightarrow> To4 a = a \<and> a \<noteq> []"
  by (auto simp: example_pool_def To4_def)

lemma example_Allocate_contract: "allocator_contract example_Allocate set"
  unfolding allocator_contract_def
proof (intro allI impI)
  fix a hint ip a'
  assume al: "example_Allocate a hint = Inr (ip, a')"
  show "To4 (IPNet.IP ip) \<noteq> [] \<and> To4 (IPNet.IP ip) \<notin> set a \<and>
        insert (To4 (IPNet.IP ip)) (set a) \<subseteq> set a'"
  proof (cases "To4 (IPNet.IP hint) \<in> set example_pool \<and> To4 (IPNet.IP hint) \<notin> set a")
    case True
    with al have "IPNet.IP ip = To4 (IPNet.IP hint)" "a' = To4 (IPNet.IP hint) # a"
      by (auto simp: example_Allocate_def)
    with True example_pool_To4 [of "To4 (IPNet.IP hint)"] show ?thesis by auto
  next
    case False
    with al obtain x xs where f: "filter (\<lambda>x. x \<notin> set a) example_pool = x # xs"
      and r: "IPNet.IP ip = x" "a' = x # a"
      by (auto simp: example_Allocate_def split: list.splits if_splits)
    have "x \<in> set (filter (\<lambda>x. x \<notin> set a) example_pool)" unfolding f by simp
    then have "x \<in> set example_pool" "x \<notin> set a" by auto
    with r example_pool_To4 [of x] show ?thesis by auto
  qed
qed

subsection \<open>Expiries over a sequence of calls\<close>

lemma renew_not_earlier:
  assumes "E * 1000000000 < now1 + D" and "now1 \<le> now2"
  shows "E \<le> (now2 + D + 500000000) div (1000000000 :: int)"
proof -
  have "E * 1000000000 \<le> now2 + D + 500000000" using assms by simp
  then have "E * 1000000000 div 1000000000 \<le> (now2 + D + 500000000) div 1000000000"
    by (rule zdiv_mono1) simp
  then show ?thesis by simp
qed

lemma step_prefix:
  "consulKVPrefix (plugin (Handler4 Allocate now1 now2 outcome p st req resp)) = consulKVPrefix p"
  by (simp add: Handler4_unfold split: option.split sum.split)

lemma step_LeaseTime:
  "LeaseTime (plugin (Handler4 Allocate now1 now2 outcome p st req resp)) = LeaseTime p"
  by (simp add: Handler4_unfold split: option.split sum.split)

lemma step_table_mono:
  assumes "now1 \<le> now2" and "Recordsv4 p h = Some r" and "in_Unix_range (Expires r)"
  shows "\<exists>r'. Recordsv4 (plugin (Handler4 Allocate now1 now2 outcome p st req resp)) h = Some r' \<and>
           Expires r \<le> Expires r'"
proof (cases "h = HardwareAddr_String (ClientHWAddr req) \<and>
              Expires r * 1000000000 < now1 + LeaseTime p")
  case True
  with assms renew_not_earlier [of "Expires r" now1 "LeaseTime p" now2]
  show ?thesis by (auto simp: Handler4_unfold round_second renewal_test_in_range)
next
  case False
  have "Recordsv4 (plugin (Handler4 Allocate now1 now2 outcome p st req resp)) h = Some r"
    using False assms(2,3)
    by (auto simp: Handler4_unfold renewal_test_in_range split: option.splits sum.splits)
  then show ?thesis by simp
qed

lemma step_table_in_range:
  assumes "table_in_range p"
    and "in_Unix_range (Time_Unix (Time_Add now1 (LeaseTime p)))"
    and "in_Unix_range (Time_Unix (Time_Round (Time_Add now2 (LeaseTime p)) Second))"
  shows "table_in_range (plugin (Handler4 Allocate now1 now2 outcome p st req resp))"
  using assms unfolding table_in_range_def
  by (auto simp: Handler4_unfold split: option.splits sum.splits if_splits)

lemma step_kv_cases:
  "kv (store (Handler4 Allocate now1 now2 outcome p st req resp)) k = kv st k \<or>
   (k = (consulKVPrefix p, HardwareAddr_String (ClientHWAddr req)) \<and>
    kv (store (Handler4 Allocate now1 now2 outcome p st req resp)) k =
      Recordsv4 (plugin (Handler4 Allocate now1 now2 outcome p st req resp))
        (HardwareAddr_String (ClientHWAddr req)))"
  by (auto simp: Handler4_unfold split: option.splits sum.splits)

lemma step_store_behind:
  assumes "store_behind p st" and "now1 \<le> now2" and "table_in_range p"
  shows "store_behind (plugin (Handler4 Allocate now1 now2 outcome p st req resp))
           (store (Handler4 Allocate now1 now2 outcome p st req resp))"
  unfolding store_behind_def step_prefix
proof (intro allI impI)
  fix h r
  let ?out = "Handler4 Allocate now1 now2 outcome p st req resp"
  assume k: "kv (store ?out) (consulKVPrefix p, h) = Some r"
  from step_kv_cases [of Allocate now1 now2 outcome p st req resp "(consulKVPrefix p, h)"]
  show "\<exists>r'. Recordsv4 (plugin ?out) h = Some r' \<and> Expires r \<le> Expires r'"
  proof
    assume "kv (store ?out) (consulKVPrefix p, h) = kv st (consulKVPrefix p, h)"
    with k have "kv st (consulKVPrefix p, h) = Some r" by simp
    with assms(1) obtain r0 where r0: "Recordsv4 p h = Some r0" "Expires r \<le> Expires r0"
      unfolding store_behind_def by blast
    from assms(3) r0(1) have "in_Unix_range (Expires r0)"
      unfolding table_in_range_def by blast
    from step_table_mono [OF assms(2) r0(1) this, of Allocate outcome st req resp] r0(2)
    show ?thesis by force
  next
    assume "(consulKVPrefix p, h) = (consulKVPrefix p, HardwareAddr_String (ClientHWAddr req)) \<and>
      kv (store ?out) (consulKVPrefix p, h) =
        Recordsv4 (plugin ?out) (HardwareAddr_String (ClientHWAddr req))"
    with k show ?thesis by auto
  qed
qed

lemma step_durable_mono:
  assumes "store_behind p st" and "now1 \<le> now2" and "table_in_range p"
    and "kv st (consulKVPrefix p, h) = Some r"
  shows "\<exists>r'. kv (store (Handler4 Allocate now1 now2 outcome p st req resp)) (consulKVPrefix p, h) =
              Some r' \<and> Expires r \<le> Expires r'"
proof -
  let ?out = "Handler4 Allocate now1 now2 outcome p st req resp"
  from assms(1,4) obtain r0 where r0: "Recordsv4 p h = Some r0" "Expires r \<le> Expires r0"
    unfolding store_behind_def by blast
  from assms(3) r0(1) have "in_Unix_range (Expires r0)"
    unfolding table_in_range_def by blast
  from step_table_mono [OF assms(2) r0(1) this, of Allocate outcome st req resp]
  obtain r1 where r1: "Recordsv4 (plugin ?out) h = Some r1" "Expires r0 \<le> Expires r1" by blast
  from step_kv_cases [of Allocate now1 now2 outcome p st req resp "(consulKVPrefix p, h)"]
  show ?thesis
  proof
    assume "kv (store ?out) (consulKVPrefix p, h) = kv st (consulKVPrefix p, h)"
    with assms(4) show ?thesis by simp
  next
    assume "(consulKVPrefix p, h) = (consulKVPrefix p, HardwareAddr_String (ClientHWAddr req)) \<and>
      kv (store ?out) (consulKVPrefix p, h) =
        Recordsv4 (plugin ?out) (HardwareAddr_String (ClientHWAddr req))"
    with r1 r0(2) show ?thesis by auto
  qed
qed

lemma readings_Cons:
  "sorted (readings (c # cs)) \<Longrightarrow> clock1 c \<le> clock2 c \<and> sorted (readings cs)"
  by (simp add: readings_def)

lemma readings_append:
  "sorted (readings (cs1 @ cs2)) \<Longrightarrow> sorted (readings cs1) \<and> sorted (readings cs2)"
  by (simp add: readings_def sorted_append)

lemma calls_in_range_Cons:
  "calls_in_range lt (c # cs) \<Longrightarrow>
   in_Unix_range (Time_Unix (Time_Add (clock1 c) lt)) \<and>
   in_Unix_range (Time_Unix (Time_Round (Time_Add (clock2 c) lt) Second)) \<and>
   calls_in_range lt cs"
  by (simp add: calls_in_range_def)

lemma calls_in_range_append:
  "calls_in_range lt (cs1 @ cs2) \<Longrightarrow> calls_in_range lt cs1 \<and> calls_in_range lt cs2"
  by (auto simp: calls_in_range_def)

lemma run_append: "run Allocate w (cs1 @ cs2) = run Allocate (run Allocate w cs1) cs2"
  by (induction cs1 arbitrary: w) simp_all

lemma run_prefix: "consulKVPrefix (fst (run Allocate w cs)) = consulKVPrefix (fst w)"
  by (induction cs arbitrary: w) (simp_all add: serve_def step_prefix)

lemma run_LeaseTime: "LeaseTime (fst (run Allocate w cs)) = LeaseTime (fst w)"
  by (induction cs arbitrary: w) (simp_all add: serve_def step_LeaseTime)

text \<open>What a call keeps of the state before it, given the clock readings it takes.\<close>

lemma serve_keeps:
  assumes "store_behind (fst w) (snd w)" and "table_in_range (fst w)"
    and "calls_in_range (LeaseTime (fst w)) (c # cs)" and "sorted (readings (c # cs))"
  shows "store_behind (plugin (serve Allocate w c)) (store (serve Allocate w c)) \<and>
         table_in_range (plugin (serve Allocate w c)) \<and>
         calls_in_range (LeaseTime (plugin (serve Allocate w c))) cs \<and>
         sorted (readings cs) \<and>
         consulKVPrefix (plugin (serve Allocate w c)) = consulKVPrefix (fst w)"
proof -
  from readings_Cons [OF assms(4)] have t: "clock1 c \<le> clock2 c" "sorted (readings cs)"
    by simp_all
  from calls_in_range_Cons [OF assms(3)]
  have e: "in_Unix_range (Time_Unix (Time_Add (clock1 c) (LeaseTime (fst w))))"
    "in_Unix_range (Time_Unix (Time_Round (Time_Add (clock2 c) (LeaseTime (fst w))) Second))"
    "calls_in_range (LeaseTime (fst w)) cs"
    by simp_all
  have "store_behind (plugin (serve Allocate w c)) (store (serve Allocate w c))"
    unfolding serve_def by (rule step_store_behind [OF assms(1) t(1) assms(2)])
  moreover have "table_in_range (plugin (serve Allocate w c))"
    unfolding serve_def by (rule step_table_in_range [OF assms(2) e(1) e(2)])
  moreover have "calls_in_range (LeaseTime (plugin (serve Allocate w c))) cs"
    using e(3) by (simp add: serve_def step_LeaseTime)
  moreover have "consulKVPrefix (plugin (serve Allocate w c)) = consulKVPrefix (fst w)"
    by (simp add: serve_def step_prefix)
  ultimately show ?thesis using t(2) by simp
qed

lemma run_keeps:
  "store_behind (fst w) (snd w) \<Longrightarrow> table_in_range (fst w) \<Longrightarrow>
   calls_in_range (LeaseTime (fst w)) cs \<Longrightarrow> sorted (readings cs) \<Longrightarrow>
   store_behind (fst (run Allocate w cs)) (snd (run Allocate w cs)) \<and>
   table_in_range (fst (run Allocate w cs))"
proof (induction cs arbitrary: w)
  case Nil
  then show ?case by simp
next
  case (Cons c cs)
  let ?w = "(plugin (serve Allocate w c), store (serve Allocate w c))"
  from serve_keeps [OF Cons.prems, of Allocate]
  have "store_behind (fst ?w) (snd ?w)" "table_in_range (fst ?w)"
    "calls_in_range (LeaseTime (fst ?w)) cs" "sorted (readings cs)"
    by simp_all
  from Cons.IH [OF this] show ?case by simp
qed

lemma run_durable_mono:
  "store_behind (fst w) (snd w) \<Longrightarrow> table_in_range (fst w) \<Longrightarrow>
   calls_in_range (LeaseTime (fst w)) cs \<Longrightarrow> sorted (readings cs) \<Longrightarrow>
   kv (snd w) (consulKVPrefix (fst w), h) = Some r \<Longrightarrow>
   \<exists>r'. kv (snd (run Allocate w cs)) (consulKVPrefix (fst w), h) = Some r' \<and>
        Expires r \<le> Expires r'"
proof (induction cs arbitrary: w r)
  case Nil
  then show ?case by simp
next
  case (Cons c cs)
  let ?w = "(plugin (serve Allocate w c), store (serve Allocate w c))"
  from readings_Cons [OF Cons.prems(4)] have t: "clock1 c \<le> clock2 c" by simp
  from serve_keeps [OF Cons.prems(1-4), of Allocate]
  have k: "store_behind (fst ?w) (snd ?w)" "table_in_range (fst ?w)"
    "calls_in_range (LeaseTime (fst ?w)) cs" "sorted (readings cs)"
    and p: "consulKVPrefix (fst ?w) = consulKVPrefix (fst w)"
    by simp_all
  from step_durable_mono [OF Cons.prems(1) t Cons.prems(2) Cons.prems(5),
      of Allocate "write_result c" "request c" "reply c"]
  obtain r1 where r1: "kv (snd ?w) (consulKVPrefix (fst w), h) = Some r1" "Expires r \<le> Expires r1"
    unfolding serve_def by auto
  from r1(1) p have "kv (snd ?w) (consulKVPrefix (fst ?w), h) = Some r1" by simp
  from Cons.IH [OF k this] p
  obtain r' where "kv (snd (run Allocate ?w cs)) (consulKVPrefix (fst w), h) = Some r'"
    "Expires r1 \<le> Expires r'"
    by auto
  with r1(2) show ?case by auto
qed

lemma run_table_mono:
  "table_in_range (fst w) \<Longrightarrow> calls_in_range (LeaseTime (fst w)) cs \<Longrightarrow>
   sorted (readings cs) \<Longrightarrow> Recordsv4 (fst w) h = Some r \<Longrightarrow>
   \<exists>r'. Recordsv4 (fst (run Allocate w cs)) h = Some r' \<and> Expires r \<le> Expires r'"
proof (induction cs arbitrary: w r)
  case Nil
  then show ?case by simp
next
  case (Cons c cs)
  let ?w = "(plugin (serve Allocate w c), store (serve Allocate w c))"
  from readings_Cons [OF Cons.prems(3)] have t: "clock1 c \<le> clock2 c" "sorted (readings cs)"
    by simp_all
  from calls_in_range_Cons [OF Cons.prems(2)]
  have e: "in_Unix_range (Time_Unix (Time_Add (clock1 c) (LeaseTime (fst w))))"
    "in_Unix_range (Time_Unix (Time_Round (Time_Add (clock2 c) (LeaseTime (fst w))) Second))"
    "calls_in_range (LeaseTime (fst w)) cs"
    by simp_all
  have tr: "table_in_range (fst ?w)"
    unfolding serve_def fst_conv by (rule step_table_in_range [OF Cons.prems(1) e(1) e(2)])
  have cr: "calls_in_range (LeaseTime (fst ?w)) cs"
    using e(3) by (simp add: serve_def step_LeaseTime)
  from Cons.prems(1,4) have "in_Unix_range (Expires r)"
    unfolding table_in_range_def by blast
  from step_table_mono [OF t(1) Cons.prems(4) this,
      of Allocate "write_result c" "snd w" "request c" "reply c"]
  obtain r1 where r1: "Recordsv4 (fst ?w) h = Some r1" "Expires r \<le> Expires r1"
    unfolding serve_def by auto
  from Cons.IH [OF tr cr t(2) r1(1)]
  obtain r' where "Recordsv4 (fst (run Allocate ?w cs)) h = Some r'" "Expires r1 \<le> Expires r'"
    by auto
  with r1(2) show ?case by auto
qed

subsection \<open>The lease time option\<close>

lemma Duration_Round_whole: "Second dvd d \<Longrightarrow> Duration_Round d Second = d"
  by (auto simp: Duration_Round_def go_rem_def Let_def Second_def)

lemma base_256_digits:
  assumes "n < (4294967296 :: nat)"
  shows "n mod 256 + 256 * (n div 256 mod 256) + 65536 * (n div 65536 mod 256) +
         16777216 * (n div 16777216 mod 256) = n"
proof -
  have a: "n div 65536 = n div 256 div 256" "n div 16777216 = n div 256 div 256 div 256"
    by (simp_all add: div_mult2_eq [symmetric])
  have top: "n div 256 div 256 div 256 < 256"
    using assms by (simp add: div_mult2_eq [symmetric] less_mult_imp_div_less)
  define q1 where "q1 = n div 256"
  define q2 where "q2 = q1 div 256"
  define q3 where "q3 = q2 div 256"
  have e1: "n = 256 * q1 + n mod 256" unfolding q1_def by simp
  have e2: "q1 = 256 * q2 + q1 mod 256" unfolding q2_def by simp
  have e3: "q2 = 256 * q3 + q2 mod 256" unfolding q3_def by simp
  have e4: "q3 mod 256 = q3" using top unfolding q3_def q2_def q1_def by simp
  have "n mod 256 + 256 * (q1 mod 256) + 65536 * (q2 mod 256) + 16777216 * (q3 mod 256) = n"
    using e1 e2 e3 e4 by linarith
  then show ?thesis unfolding a q3_def q2_def q1_def .
qed

lemma Uint32_PutUint32:
  assumes "n < 4294967296"
  shows "BigEndian_Uint32 (BigEndian_PutUint32 n) = Some n"
proof -
  have "n div 16777216 mod 256 = n div 16777216"
    using assms by (simp add: less_mult_imp_div_less)
  with base_256_digits [OF assms] show ?thesis
    by (simp add: BigEndian_PutUint32_def unat_of_nat)
qed

section \<open>The claims\<close>

text \<open>
  C1 (renewal threshold), as amended. A client with a record of expiry \<open>E\<close> (in seconds)
  asks for a lease, \<open>E\<close> being a second count that \<open>time.Unix\<close> does not wrap (at most
  9223371974719179007); the clock reads \<open>now1\<close> when the handler compares and \<open>now2\<close>
  when it computes the new expiry. If \<open>E\<close> lies before \<open>now1 + LeaseTime\<close>, the record in
  the table gets the expiry \<open>now2 + LeaseTime\<close> rounded to the nearest whole second (halves
  up) and the client's host name, and the store is asked once to write that record; it
  holds the record when it accepts the write and what it held when it rejects it.
  Otherwise the plugin and the store are what they were: no record changes and the store
  is not asked for anything.
\<close>

theorem renewal_threshold:
  assumes "Recordsv4 p (HardwareAddr_String (ClientHWAddr req)) = Some r0"
    and "in_Unix_range (Expires r0)"
  shows
    "(Expires r0 * 1000000000 < now1 + LeaseTime p \<longrightarrow>
        plugin (Handler4 Allocate now1 now2 outcome p st req resp) =
          p\<lparr>Recordsv4 := (Recordsv4 p)(HardwareAddr_String (ClientHWAddr req) \<mapsto>
               r0\<lparr>Expires := (now2 + LeaseTime p + 500000000) div 1000000000,
                  Hostname := HostName req\<rparr>)\<rparr> \<and>
        upserts (store (Handler4 Allocate now1 now2 outcome p st req resp)) =
          upserts st @ [(consulKVPrefix p, HardwareAddr_String (ClientHWAddr req),
               r0\<lparr>Expires := (now2 + LeaseTime p + 500000000) div 1000000000,
                  Hostname := HostName req\<rparr>)] \<and>
        kv (store (Handler4 Allocate now1 now2 outcome p st req resp)) =
          (case outcome of
             None \<Rightarrow> (kv st)((consulKVPrefix p, HardwareAddr_String (ClientHWAddr req)) \<mapsto>
               r0\<lparr>Expires := (now2 + LeaseTime p + 500000000) div 1000000000,
                  Hostname := HostName req\<rparr>)
           | Some e \<Rightarrow> kv st)) \<and>
     (now1 + LeaseTime p \<le> Expires r0 * 1000000000 \<longrightarrow>
        plugin (Handler4 Allocate now1 now2 outcome p st req resp) = p \<and>
        store (Handler4 Allocate now1 now2 outcome p st req resp) = st)"
  using assms
  by (simp add: Handler4_unfold round_second renewal_test_in_range split: option.split)

text \<open>
  The record of \<open>aa\<close> expires at second 4600 and leases last one hour. At 1000.499999999 s
  the lease on offer ends after second 4600, so the record is renewed, to second 4601 as
  the second clock reading is 1000.5 s; at 1000 s it ends at second 4600 and nothing changes.
\<close>

theorem renewal_threshold_witness:
  "Recordsv4 example_plugin (HardwareAddr_String (ClientHWAddr (example_request [0xaa] ''beta''))) =
     Some example_record \<and>
   in_Unix_range (Expires example_record) \<and>
   Recordsv4 (plugin (Handler4 example_Allocate 1000499999999 1000500000000 None example_plugin
       example_store (example_request [0xaa] ''beta'') example_reply)) ''aa'' =
     Some \<lparr>Record.IP = [10, 0, 0, 2], Expires = 4601, Hostname = ''beta''\<rparr> \<and>
   kv (store (Handler4 example_Allocate 1000499999999 1000500000000 None example_plugin
       example_store (example_request [0xaa] ''beta'') example_reply)) (''dhcp/'', ''aa'') =
     Some \<lparr>Record.IP = [10, 0, 0, 2], Expires = 4601, Hostname = ''beta''\<rparr> \<and>
   plugin (Handler4 example_Allocate 1000000000000 1000000000000 None example_plugin
       example_store (example_request [0xaa] ''beta'') example_reply) = example_plugin \<and>
   store (Handler4 example_Allocate 1000000000000 1000000000000 None example_plugin
       example_store (example_request [0xaa] ''beta'') example_reply) = example_store"
  using renewal_threshold [of example_plugin "example_request [0xaa] ''beta''" example_record
      1000499999999 example_Allocate 1000500000000 None example_store example_reply]
    renewal_threshold [of example_plugin "example_request [0xaa] ''beta''" example_record
      1000000000000 example_Allocate 1000000000000 None example_store example_reply]
  by (simp add: example_defs in_Unix_range_def)

text \<open>
  As stated, C1 fails in two ways. For the expiry 9223372036854775807 \<open>time.Unix\<close> wraps:
  at 1000 s the lease on offer ends long before that expiry, yet the record is renewed,
  to second 4600, and the store is asked to write it. And when the store rejects the
  write of a renewal that is due (expiry 4600, the call at 2000 s), the durable record
  keeps the expiry 4600 while the record in the table gets 5600.
\<close>

theorem renewal_threshold_counterexample:
  "1000000000000 + LeaseTime example_plugin \<le> 9223372036854775807 * 1000000000 \<and>
   Recordsv4 (plugin (Handler4 example_Allocate 1000000000000 1000000000000 None
       (example_plugin\<lparr>Recordsv4 := [''aa'' \<mapsto> example_record\<lparr>Expires := 9223372036854775807\<rparr>]\<rparr>)
       example_store (example_request [0xaa] ''beta'') example_reply)) ''aa'' =
     Some \<lparr>Record.IP = [10, 0, 0, 2], Expires = 4600, Hostname = ''beta''\<rparr> \<and>
   upserts (store (Handler4 example_Allocate 1000000000000 1000000000000 None
       (example_plugin\<lparr>Recordsv4 := [''aa'' \<mapsto> example_record\<lparr>Expires := 9223372036854775807\<rparr>]\<rparr>)
       example_store (example_request [0xaa] ''beta'') example_reply)) =
     [(''dhcp/'', ''aa'', \<lparr>Record.IP = [10, 0, 0, 2], Expires = 4600, Hostname = ''beta''\<rparr>)] \<and>
   Expires example_record * 1000000000 < 2000000000000 + LeaseTime example_plugin \<and>
   Recordsv4 (plugin (Handler4 example_Allocate 2000000000000 2000000000000
       (Some (External ''store unreachable'')) example_plugin example_store
       (example_request [0xaa] ''beta'') example_reply)) ''aa'' =
     Some \<lparr>Record.IP = [10, 0, 0, 2], Expires = 5600, Hostname = ''beta''\<rparr> \<and>
   kv (store (Handler4 example_Allocate 2000000000000 2000000000000
       (Some (External ''store unreachable'')) example_plugin example_store
       (example_request [0xaa] ''beta'') example_reply)) (''dhcp/'', ''aa'') =
     Some \<lparr>Record.IP = [10, 0, 0, 2], Expires = 4600, Hostname = ''alpha''\<rparr>"
  by (simp add: example_defs Handler4_unfold round_second)

text \<open>
  C2 (allocation failure). A client without a record asks for a lease and the allocator
  fails: the handler returns no response and tells the server to stop processing the
  request, the failure is logged, and the plugin (its table and its allocator) and the
  store are what they were.
\<close>

theorem allocation_failure:
  assumes "Recordsv4 p (HardwareAddr_String (ClientHWAddr req)) = None"
    and "Allocate (allocator p) \<lparr>IPNet.IP = [], Mask = []\<rparr> = Inl err"
  shows "response (Handler4 Allocate now1 now2 outcome p st req resp) = None \<and>
         stop (Handler4 Allocate now1 now2 outcome p st req resp) = True \<and>
         plugin (Handler4 Allocate now1 now2 outcome p st req resp) = p \<and>
         store (Handler4 Allocate now1 now2 outcome p st req resp) = st \<and>
         CouldNotAllocate (HardwareAddr_String (ClientHWAddr req)) err
           \<in> set (logged (Handler4 Allocate now1 now2 outcome p st req resp))"
  using assms by (simp add: Handler4_unfold)

text \<open>All three addresses of the range are taken when client \<open>dd\<close> asks.\<close>

theorem allocation_failure_witness:
  "Recordsv4 (example_plugin\<lparr>allocator := example_pool\<rparr>)
     (HardwareAddr_String (ClientHWAddr (example_request [0xdd] ''delta''))) = None \<and>
   example_Allocate (allocator (example_plugin\<lparr>allocator := example_pool\<rparr>))
     \<lparr>IPNet.IP = [], Mask = []\<rparr> = Inl (External ''no address available'') \<and>
   response (Handler4 example_Allocate 1000000000000 1000000000000 None
     (example_plugin\<lparr>allocator := example_pool\<rparr>) example_store
     (example_request [0xdd] ''delta'') example_reply) = None \<and>
   stop (Handler4 example_Allocate 1000000000000 1000000000000 None
     (example_plugin\<lparr>allocator := example_pool\<rparr>) example_store
     (example_request [0xdd] ''delta'') example_reply) = True \<and>
   plugin (Handler4 example_Allocate 1000000000000 1000000000000 None
     (example_plugin\<lparr>allocator := example_pool\<rparr>) example_store
     (example_request [0xdd] ''delta'') example_reply) = example_plugin\<lparr>allocator := example_pool\<rparr> \<and>
   store (Handler4 example_Allocate 1000000000000 1000000000000 None
     (example_plugin\<lparr>allocator := example_pool\<rparr>) example_store
     (example_request [0xdd] ''delta'') example_reply) = example_store"
  using allocation_failure [of "example_plugin\<lparr>allocator := example_pool\<rparr>"
      "example_request [0xdd] ''delta''" example_Allocate "External ''no address available''"
      1000000000000 1000000000000 None example_store example_reply]
  by (simp add: example_defs example_Allocate_def example_pool_def To4_def)




text \<open>
  C4 (startup recovery). Setup has validated its arguments, built the allocator \<open>a0\<close> and
  loaded the records \<open>recs\<close>; \<open>v\<close> is any record of the loaded map, \<open>vs1\<close> the records the
  loop visits before it and \<open>vs2\<close> those after it. If setup succeeds, the allocator
  was asked for exactly the address of \<open>v\<close> (the hint carries that address and no mask),
  in the state the records before \<open>v\<close> left it in, and it returned that address. If the
  allocator fails on the address of \<open>v\<close>, or returns an address that prints differently,
  setup returns an error and no plugin.
\<close>

theorem startup_recovery:
  assumes "5 \<le> length args" and "args ! 0 \<noteq> []" and "args ! 1 \<noteq> []"
    and "To4 (ParseIP env (args ! 2)) \<noteq> []" and "To4 (ParseIP env (args ! 3)) \<noteq> []"
    and "BigEndian_Uint32 (To4 (ParseIP env (args ! 2))) = Some s"
    and "BigEndian_Uint32 (To4 (ParseIP env (args ! 3))) = Some e" and "s < e"
    and "NewIPv4Allocator env (ParseIP env (args ! 2)) (ParseIP env (args ! 3)) = Inr a0"
    and "ParseDuration env (args ! 4) = Inr lt"
    and "NewClient env (args ! 0) = Inr client"
    and "loadRecords env client (args ! 1) = Inr recs"
    and "map snd (AList.clearjunk recs) = vs1 @ v # vs2"
  shows "(\<forall>p. setupConsulRange env args = Inr p \<longrightarrow>
            Recordsv4 p = map_of recs \<and>
            (\<exists>a1 ip a2. reallocate (allocator_Allocate env) a0 vs1 = Inr a1 \<and>
               allocator_Allocate env a1 \<lparr>IPNet.IP = Record.IP v, Mask = []\<rparr> = Inr (ip, a2) \<and>
               IP_String (IPNet.IP ip) = IP_String (Record.IP v) \<and>
               reallocate (allocator_Allocate env) a2 vs2 = Inr (allocator p))) \<and>
         (\<forall>a1 err. reallocate (allocator_Allocate env) a0 vs1 = Inr a1 \<and>
            allocator_Allocate env a1 \<lparr>IPNet.IP = Record.IP v, Mask = []\<rparr> = Inl err \<longrightarrow>
            setupConsulRange env args = Inl (FailedToReallocate (Record.IP v) err)) \<and>
         (\<forall>a1 ip a2. reallocate (allocator_Allocate env) a0 vs1 = Inr a1 \<and>
            allocator_Allocate env a1 \<lparr>IPNet.IP = Record.IP v, Mask = []\<rparr> = Inr (ip, a2) \<and>
            IP_String (IPNet.IP ip) \<noteq> IP_String (Record.IP v) \<longrightarrow>
            setupConsulRange env args = Inl (DidNotReallocate (Record.IP v) (IPNet.IP ip)))"
proof -
  note loop = setup_reaches_loop [OF assms(1-12)]
  have split: "reallocate (allocator_Allocate env) a0 (map snd (AList.clearjunk recs)) =
      (case reallocate (allocator_Allocate env) a0 vs1 of
         Inl e \<Rightarrow> Inl e
       | Inr a1 \<Rightarrow> reallocate (allocator_Allocate env) a1 (v # vs2))"
    unfolding assms(13) by (rule reallocate_append)
  show ?thesis
    unfolding loop split
    by (auto split: sum.splits if_splits)
qed

text \<open>
  Two persisted leases on different addresses are re-registered. Two on the same address
  make the allocator return another address for the second, and setup fails. Four leases
  on a range of three make the allocator fail on the fourth.
\<close>

theorem startup_recovery_witness:
  "setupConsulRange (example_env [(''aa'', example_lease 2), (''bb'', example_lease 3)]) example_args =
     Inr \<lparr>Recordsv4 = map_of [(''aa'', example_lease 2), (''bb'', example_lease 3)],
          LeaseTime = 3600000000000, allocator = [[10, 0, 0, 3], [10, 0, 0, 2]],
          consulURL = ''http://127.0.0.1:8500'', consulKVPrefix = ''dhcp/'', consulClient = ()\<rparr> \<and>
   (\<exists>a1 ip a2. reallocate example_Allocate [] [example_lease 2] = Inr a1 \<and>
      example_Allocate a1 \<lparr>IPNet.IP = Record.IP (example_lease 3), Mask = []\<rparr> = Inr (ip, a2) \<and>
      IP_String (IPNet.IP ip) = IP_String (Record.IP (example_lease 3)) \<and>
      reallocate example_Allocate a2 [] = Inr [[10, 0, 0, 3], [10, 0, 0, 2]]) \<and>
   example_Allocate [[10, 0, 0, 2]] \<lparr>IPNet.IP = [10, 0, 0, 2], Mask = []\<rparr> =
     Inr (\<lparr>IPNet.IP = [10, 0, 0, 3], Mask = [255, 255, 255, 255]\<rparr>, [[10, 0, 0, 3], [10, 0, 0, 2]]) \<and>
   setupConsulRange (example_env [(''aa'', example_lease 2), (''bb'', example_lease 2)]) example_args =
     Inl (DidNotReallocate [10, 0, 0, 2] [10, 0, 0, 3]) \<and>
   example_Allocate [[10, 0, 0, 4], [10, 0, 0, 3], [10, 0, 0, 2]] \<lparr>IPNet.IP = [10, 0, 0, 5], Mask = []\<rparr> =
     Inl (External ''no address available'') \<and>
   setupConsulRange (example_env [(''aa'', example_lease 2), (''bb'', example_lease 3),
       (''cc'', example_lease 4), (''dd'', example_lease 5)]) example_args =
     Inl (FailedToReallocate [10, 0, 0, 5] (External ''no address available''))"
proof -
  let ?good = "[(''aa'', example_lease 2), (''bb'', example_lease 3)]"
  let ?twice = "[(''aa'', example_lease 2), (''bb'', example_lease 2)]"
  let ?four = "[(''aa'', example_lease 2), (''bb'', example_lease 3),
       (''cc'', example_lease 4), (''dd'', example_lease 5)]"
  let ?p = "\<lparr>Recordsv4 = map_of ?good,
          LeaseTime = 3600000000000, allocator = [[10, 0, 0, 3], [10, 0, 0, 2]],
          consulURL = ''http://127.0.0.1:8500'', consulKVPrefix = ''dhcp/'',
          consulClient = ()\<rparr> :: (IP list, unit) PluginState"
  have good: "setupConsulRange (example_env ?good) example_args = Inr ?p"
    by (simp add: example_setup_defs example_lease_def)
  have asked: "Recordsv4 ?p = map_of ?good \<and>
    (\<exists>a1 ip a2. reallocate (allocator_Allocate (example_env ?good)) [] [example_lease 2] = Inr a1 \<and>
      allocator_Allocate (example_env ?good) a1
        \<lparr>IPNet.IP = Record.IP (example_lease 3), Mask = []\<rparr> = Inr (ip, a2) \<and>
      IP_String (IPNet.IP ip) = IP_String (Record.IP (example_lease 3)) \<and>
      reallocate (allocator_Allocate (example_env ?good)) a2 [] = Inr (allocator ?p))"
    by (rule startup_recovery [of example_args "example_env ?good" 167772162 167772164 "[]"
          3600000000000 "()" ?good "[example_lease 2]" "example_lease 3" "[]",
          THEN conjunct1, rule_format])
       (simp_all add: example_setup_defs example_lease_def)
  have different: "example_Allocate [[10, 0, 0, 2]] \<lparr>IPNet.IP = [10, 0, 0, 2], Mask = []\<rparr> =
     Inr (\<lparr>IPNet.IP = [10, 0, 0, 3], Mask = [255, 255, 255, 255]\<rparr>, [[10, 0, 0, 3], [10, 0, 0, 2]])"
    by (simp add: example_Allocate_def example_pool_def To4_def)
  have twice: "setupConsulRange (example_env ?twice) example_args =
     Inl (DidNotReallocate [10, 0, 0, 2] [10, 0, 0, 3])"
    using startup_recovery [of example_args "example_env ?twice" 167772162 167772164 "[]"
          3600000000000 "()" ?twice "[example_lease 2]" "example_lease 2" "[]",
          THEN conjunct2, THEN conjunct2, rule_format, of "[[10, 0, 0, 2]]"
          "\<lparr>IPNet.IP = [10, 0, 0, 3], Mask = [255, 255, 255, 255]\<rparr>" "[[10, 0, 0, 3], [10, 0, 0, 2]]"]
    by (simp add: example_setup_defs example_lease_def)
  have exhausted: "example_Allocate [[10, 0, 0, 4], [10, 0, 0, 3], [10, 0, 0, 2]]
     \<lparr>IPNet.IP = [10, 0, 0, 5], Mask = []\<rparr> = Inl (External ''no address available'')"
    by (simp add: example_Allocate_def example_pool_def To4_def)
  have four: "setupConsulRange (example_env ?four) example_args =
     Inl (FailedToReallocate [10, 0, 0, 5] (External ''no address available''))"
    using startup_recovery [of example_args "example_env ?four" 167772162 167772164 "[]"
          3600000000000 "()" ?four "[example_lease 2, example_lease 3, example_lease 4]"
          "example_lease 5" "[]",
          THEN conjunct2, THEN conjunct1, rule_format, of "[[10, 0, 0, 4], [10, 0, 0, 3], [10, 0, 0, 2]]"
          "External ''no address available''"]
    by (simp add: example_setup_defs example_lease_def)
  have env: "allocator_Allocate (example_env ?good) = example_Allocate"
    by (simp add: example_env_def)
  from asked have asked': "\<exists>a1 ip a2. reallocate example_Allocate [] [example_lease 2] = Inr a1 \<and>
      example_Allocate a1 \<lparr>IPNet.IP = Record.IP (example_lease 3), Mask = []\<rparr> = Inr (ip, a2) \<and>
      IP_String (IPNet.IP ip) = IP_String (Record.IP (example_lease 3)) \<and>
      reallocate example_Allocate a2 [] = Inr [[10, 0, 0, 3], [10, 0, 0, 2]]"
    unfolding env by simp
  from good asked' different twice exhausted four show ?thesis by blast
qed

text \<open>
  C5 (argument validation). Setup returns an error, and so no handler, when it gets fewer
  than five arguments, an empty store address, an empty key prefix, a range start or end
  that does not parse to an IPv4 address, a range start not below the range end, or a
  lease duration that does not parse.
\<close>

theorem setup_rejects_bad_arguments:
  assumes "length args < 5 \<or> args ! 0 = [] \<or> args ! 1 = [] \<or>
           To4 (ParseIP env (args ! 2)) = [] \<or> To4 (ParseIP env (args ! 3)) = [] \<or>
           (\<exists>s e. BigEndian_Uint32 (To4 (ParseIP env (args ! 2))) = Some s \<and>
                  BigEndian_Uint32 (To4 (ParseIP env (args ! 3))) = Some e \<and> e \<le> s) \<or>
           (\<exists>err. ParseDuration env (args ! 4) = Inl err)"
  shows "\<exists>err. setupConsulRange env args = Inl err"
  using assms
  by (auto simp: setupConsulRange_def Let_def split: option.splits sum.splits)

text \<open>Four arguments; an end that is no address; an inverted range; a duration that is none.\<close>

theorem setup_rejects_bad_arguments_witness:
  "length [''http://127.0.0.1:8500'', ''dhcp/'', ''10.0.0.2'', ''10.0.0.4''] < 5 \<and>
   (\<exists>err. setupConsulRange (example_env [])
      [''http://127.0.0.1:8500'', ''dhcp/'', ''10.0.0.2'', ''10.0.0.4''] = Inl err) \<and>
   To4 (ParseIP (example_env []) ([''http://127.0.0.1:8500'', ''dhcp/'', ''10.0.0.2'', ''10.0.0.x'', ''1h''] ! 3)) = [] \<and>
   (\<exists>err. setupConsulRange (example_env [])
      [''http://127.0.0.1:8500'', ''dhcp/'', ''10.0.0.2'', ''10.0.0.x'', ''1h''] = Inl err) \<and>
   BigEndian_Uint32 (To4 (ParseIP (example_env []) ([''http://127.0.0.1:8500'', ''dhcp/'', ''10.0.0.4'', ''10.0.0.2'', ''1h''] ! 2))) = Some 167772164 \<and>
   BigEndian_Uint32 (To4 (ParseIP (example_env []) ([''http://127.0.0.1:8500'', ''dhcp/'', ''10.0.0.4'', ''10.0.0.2'', ''1h''] ! 3))) = Some 167772162 \<and>
   (\<exists>err. setupConsulRange (example_env [])
      [''http://127.0.0.1:8500'', ''dhcp/'', ''10.0.0.4'', ''10.0.0.2'', ''1h''] = Inl err) \<and>
   ParseDuration (example_env []) ([''http://127.0.0.1:8500'', ''dhcp/'', ''10.0.0.2'', ''10.0.0.4'', ''soon''] ! 4) =
     Inl (External ''invalid duration'') \<and>
   (\<exists>err. setupConsulRange (example_env [])
      [''http://127.0.0.1:8500'', ''dhcp/'', ''10.0.0.2'', ''10.0.0.4'', ''soon''] = Inl err)"
  using
    setup_rejects_bad_arguments [of "[''http://127.0.0.1:8500'', ''dhcp/'', ''10.0.0.2'', ''10.0.0.4'']" "example_env []"]
    setup_rejects_bad_arguments [of "[''http://127.0.0.1:8500'', ''dhcp/'', ''10.0.0.2'', ''10.0.0.x'', ''1h'']" "example_env []"]
    setup_rejects_bad_arguments [of "[''http://127.0.0.1:8500'', ''dhcp/'', ''10.0.0.4'', ''10.0.0.2'', ''1h'']" "example_env []"]
    setup_rejects_bad_arguments [of "[''http://127.0.0.1:8500'', ''dhcp/'', ''10.0.0.2'', ''10.0.0.4'', ''soon'']" "example_env []"]
  by (simp add: example_env_def example_ParseIP_def example_ParseDuration_def To4_def)

text \<open>
  C6 (stable address). A client with a record is answered with the address of that
  record, and the call leaves the record as it was but for expiry and host name. So two
  calls for the same client return the same address, whatever calls are served in between.
\<close>

theorem stable_address:
  "(Recordsv4 p (HardwareAddr_String (ClientHWAddr req)) = Some r0 \<longrightarrow>
      (\<exists>a. response (Handler4 Allocate now1 now2 outcome p st req resp) = Some a \<and>
           YourIPAddr a = Record.IP r0) \<and>
      (\<exists>e hn. Recordsv4 (plugin (Handler4 Allocate now1 now2 outcome p st req resp))
           (HardwareAddr_String (ClientHWAddr req)) =
         Some (r0\<lparr>Expires := e, Hostname := hn\<rparr>))) \<and>
   (response (serve Allocate w c1) = Some a1 \<and> client_of c2 = client_of c1 \<longrightarrow>
      (\<exists>a2. response (serve Allocate
              (run Allocate (plugin (serve Allocate w c1), store (serve Allocate w c1)) cs) c2) =
            Some a2 \<and> YourIPAddr a2 = YourIPAddr a1))"
proof (intro conjI impI)
  assume r: "Recordsv4 p (HardwareAddr_String (ClientHWAddr req)) = Some r0"
  from existing_response [OF r]
  show "\<exists>a. response (Handler4 Allocate now1 now2 outcome p st req resp) = Some a \<and>
            YourIPAddr a = Record.IP r0"
    by simp
  from step_record_kept [OF r]
  show "\<exists>e hn. Recordsv4 (plugin (Handler4 Allocate now1 now2 outcome p st req resp))
           (HardwareAddr_String (ClientHWAddr req)) =
         Some (r0\<lparr>Expires := e, Hostname := hn\<rparr>)" .
next
  let ?w1 = "(plugin (serve Allocate w c1), store (serve Allocate w c1))"
  assume a: "response (serve Allocate w c1) = Some a1 \<and> client_of c2 = client_of c1"
  then obtain r where r: "Recordsv4 (fst ?w1) (client_of c1) = Some r" "Record.IP r = YourIPAddr a1"
    using serve_answered_in_table [of Allocate w c1 a1] by auto
  obtain r' where r': "Recordsv4 (fst (run Allocate ?w1 cs)) (client_of c1) = Some r'"
      "Record.IP r' = Record.IP r"
    using run_record_kept [OF r(1)] by blast
  from r'(1) a have "Recordsv4 (fst (run Allocate ?w1 cs))
      (HardwareAddr_String (ClientHWAddr (request c2))) = Some r'"
    by (simp add: client_of_def)
  from existing_response [OF this] r'(2) r(2)
  show "\<exists>a2. response (serve Allocate (run Allocate ?w1 cs) c2) = Some a2 \<and>
          YourIPAddr a2 = YourIPAddr a1"
    by (simp add: serve_def)
qed

text \<open>
  Client \<open>bb\<close> is given 10.0.0.3, client \<open>cc\<close> is served, and \<open>bb\<close> is given 10.0.0.3 again
  long after its lease has run out.
\<close>

theorem stable_address_witness:
  "Recordsv4 example_plugin (HardwareAddr_String (ClientHWAddr (example_request [0xaa] ''beta''))) =
     Some example_record \<and>
   (\<exists>a. response (Handler4 example_Allocate 1000000000000 1000000000000 None example_plugin
       example_store (example_request [0xaa] ''beta'') example_reply) = Some a \<and>
       YourIPAddr a = [10, 0, 0, 2]) \<and>
   response (serve example_Allocate (example_plugin, example_store)
       (example_call 1000000000000 [0xbb] ''beta'')) =
     Some (example_reply\<lparr>YourIPAddr := [10, 0, 0, 3],
        Options := [OptionIPAddressLeaseTime \<mapsto> [0, 0, 14, 16]]\<rparr>) \<and>
   client_of (example_call 9000000000000 [0xbb] ''again'') =
     client_of (example_call 1000000000000 [0xbb] ''beta'') \<and>
   (\<exists>a2. response (serve example_Allocate
        (run example_Allocate
           (plugin (serve example_Allocate (example_plugin, example_store)
              (example_call 1000000000000 [0xbb] ''beta'')),
            store (serve example_Allocate (example_plugin, example_store)
              (example_call 1000000000000 [0xbb] ''beta'')))
           [example_call 1001000000000 [0xcc] ''gamma''])
        (example_call 9000000000000 [0xbb] ''again'')) = Some a2 \<and>
      YourIPAddr a2 = [10, 0, 0, 3])"
  using stable_address [where p = example_plugin and req = "example_request [0xaa] ''beta''"
      and ?r0.0 = example_record and Allocate = example_Allocate and ?now1.0 = 1000000000000
      and ?now2.0 = 1000000000000 and outcome = None and st = example_store
      and resp = example_reply and w = "(example_plugin, example_store)"
      and ?c1.0 = "example_call 1000000000000 [0xbb] ''beta''"
      and ?a1.0 = "example_reply\<lparr>YourIPAddr := [10, 0, 0, 3],
        Options := [OptionIPAddressLeaseTime \<mapsto> [0, 0, 14, 16]]\<rparr>"
      and ?c2.0 = "example_call 9000000000000 [0xbb] ''again''"
      and cs = "[example_call 1001000000000 [0xcc] ''gamma'']"]
  by (simp add: example_defs example_call_def serve_def client_of_def
        example_Allocate_def example_pool_def To4_def
        Duration_Round_def go_rem_def Second_def Handler4_unfold Time_Unix_def
        Options_Update_def OptIPAddressLeaseTime_def round_second)

text \<open>
  C7 (injectivity, invariant I3). The allocator keeps its contract: it never returns an
  address it has already marked. Then in every state reached by a successful setup and
  any sequence of calls of the handler, calls that fail on an exhausted range included,
  no two clients of the table hold the same address, and no two clients have been
  answered with the same address.
\<close>

theorem injectivity:
  assumes "allocator_contract (allocator_Allocate env) taken"
    and "setupConsulRange env args = Inr p0"
  shows "injective_table (Recordsv4 (fst (run (allocator_Allocate env) (p0, st) cs))) \<and>
         distinct_answers (answers (allocator_Allocate env) (p0, st) cs)"
proof -
  have "table_inv taken (fst (p0, st))"
    using setup_table_inv [OF assms] by simp
  from run_table_inv [OF assms(1) this]
  have inj: "injective_table (Recordsv4 (fst (run (allocator_Allocate env) (p0, st) cs)))"
    by (rule table_inv_injective)
  from inj injective_answers [OF inj] show ?thesis by simp
qed

text \<open>
  After a setup that loads the lease of \<open>aa\<close> on 10.0.0.2, clients \<open>bb\<close> and \<open>cc\<close> get the
  two other addresses, \<open>dd\<close> gets none, and \<open>bb\<close> gets its address again.
\<close>

theorem injectivity_witness:
  "allocator_contract (allocator_Allocate (example_env [(''aa'', example_record)])) set \<and>
   setupConsulRange (example_env [(''aa'', example_record)]) example_args = Inr example_plugin \<and>
   injective_table (Recordsv4 (fst (run (allocator_Allocate (example_env [(''aa'', example_record)]))
      (example_plugin, example_store)
      [example_call 1000000000000 [0xbb] ''beta'', example_call 1001000000000 [0xcc] ''gamma'',
       example_call 1002000000000 [0xdd] ''delta'', example_call 1003000000000 [0xbb] ''beta'']))) \<and>
   distinct_answers (answers (allocator_Allocate (example_env [(''aa'', example_record)]))
      (example_plugin, example_store)
      [example_call 1000000000000 [0xbb] ''beta'', example_call 1001000000000 [0xcc] ''gamma'',
       example_call 1002000000000 [0xdd] ''delta'', example_call 1003000000000 [0xbb] ''beta'']) \<and>
   answers example_Allocate (example_plugin, example_store)
      [example_call 1000000000000 [0xbb] ''beta'', example_call 1001000000000 [0xcc] ''gamma'',
       example_call 1002000000000 [0xdd] ''delta'', example_call 1003000000000 [0xbb] ''beta''] =
     [(''bb'', [10, 0, 0, 3]), (''cc'', [10, 0, 0, 4]), (''bb'', [10, 0, 0, 3])]"
proof -
  have env: "allocator_Allocate (example_env [(''aa'', example_record)]) = example_Allocate"
    by (simp add: example_env_def)
  have c: "allocator_contract (allocator_Allocate (example_env [(''aa'', example_record)])) set"
    unfolding env by (rule example_Allocate_contract)
  have s: "setupConsulRange (example_env [(''aa'', example_record)]) example_args = Inr example_plugin"
    by (simp add: example_setup_defs example_plugin_def)
  have a: "answers example_Allocate (example_plugin, example_store)
      [example_call 1000000000000 [0xbb] ''beta'', example_call 1001000000000 [0xcc] ''gamma'',
       example_call 1002000000000 [0xdd] ''delta'', example_call 1003000000000 [0xbb] ''beta''] =
     [(''bb'', [10, 0, 0, 3]), (''cc'', [10, 0, 0, 4]), (''bb'', [10, 0, 0, 3])]"
    by (simp add: example_defs example_call_def serve_def client_of_def
        example_Allocate_def example_pool_def To4_def
        Duration_Round_def go_rem_def Second_def Handler4_unfold Time_Unix_def
        Options_Update_def OptIPAddressLeaseTime_def round_second)
  from injectivity [OF c s, of example_store
      "[example_call 1000000000000 [0xbb] ''beta'', example_call 1001000000000 [0xcc] ''gamma'',
       example_call 1002000000000 [0xdd] ''delta'', example_call 1003000000000 [0xbb] ''beta'']"]
    c s a
  show ?thesis by blast
qed

text \<open>
  C8 (lease time in the response), as amended. Whenever the handler answers, for a new
  client, a renewed record or an untouched one, the lease time option of the response
  holds \<open>uint32(LeaseTime.Round(time.Second) / time.Second)\<close> in four bytes, highest
  first: the configured lease duration rounded to the nearest whole second, as a count of
  seconds modulo \<open>2^32\<close>, whatever the expiry of the record. It is the configured duration
  itself when that is a whole number of seconds from 0 to \<open>2^32 - 1\<close>.
\<close>

theorem lease_time_rounded:
  assumes "response (Handler4 Allocate now1 now2 outcome p st req resp) = Some r"
  shows "Options r OptionIPAddressLeaseTime =
           Some (BigEndian_PutUint32
                   (uint32 (go_quot (Duration_Round (LeaseTime p) Second) Second))) \<and>
         (Second dvd LeaseTime p \<and> 0 \<le> LeaseTime p \<and> LeaseTime p < 4294967296 * Second \<longrightarrow>
            Options r OptionIPAddressLeaseTime =
              Some (BigEndian_PutUint32 (nat (LeaseTime p div Second))) \<and>
            BigEndian_Uint32 (BigEndian_PutUint32 (nat (LeaseTime p div Second))) =
              Some (nat (LeaseTime p div Second)))"
proof -
  have written: "Options r OptionIPAddressLeaseTime =
      Some (BigEndian_PutUint32 (uint32 (go_quot (Duration_Round (LeaseTime p) Second) Second)))"
    using assms
    by (auto simp: Handler4_unfold Options_Update_def OptIPAddressLeaseTime_def
          Duration_ToBytes_def split: option.splits sum.splits if_splits)
  have whole: "uint32 (go_quot (Duration_Round (LeaseTime p) Second) Second) =
      nat (LeaseTime p div Second) \<and>
      BigEndian_Uint32 (BigEndian_PutUint32 (nat (LeaseTime p div Second))) =
        Some (nat (LeaseTime p div Second))"
    if w: "Second dvd LeaseTime p" "0 \<le> LeaseTime p" "LeaseTime p < 4294967296 * Second"
  proof -
    from w(1) have "Duration_Round (LeaseTime p) Second = LeaseTime p"
      by (rule Duration_Round_whole)
    moreover from w(2,3) have "0 \<le> LeaseTime p div Second" "LeaseTime p div Second < 4294967296"
      by (simp_all add: Second_def)
    ultimately have "uint32 (go_quot (Duration_Round (LeaseTime p) Second) Second) =
        nat (LeaseTime p div Second)"
      using w(2) by (simp add: uint32_def go_quot_def Second_def sgn_if)
    moreover from \<open>LeaseTime p div Second < 4294967296\<close>
    have "nat (LeaseTime p div Second) < 4294967296" by simp
    then have "BigEndian_Uint32 (BigEndian_PutUint32 (nat (LeaseTime p div Second))) =
        Some (nat (LeaseTime p div Second))"
      by (rule Uint32_PutUint32)
    ultimately show ?thesis by simp
  qed
  from written whole show ?thesis by auto
qed

theorem lease_time_rounded_witness:
  "response (Handler4 example_Allocate 1000000000000 1000000000000 None
      (example_plugin\<lparr>LeaseTime := 3600000000000\<rparr>) example_store
      (example_request [0xaa] ''beta'') example_reply) =
     Some (example_reply\<lparr>YourIPAddr := [10, 0, 0, 2],
        Options := [OptionIPAddressLeaseTime \<mapsto> [0, 0, 14, 16]]\<rparr>) \<and>
   Second dvd 3600000000000 \<and>
   BigEndian_PutUint32 (nat (3600000000000 div Second)) = [0, 0, 14, 16] \<and>
   BigEndian_Uint32 [0, 0, 14, 16] = Some 3600"
  using lease_time_rounded [of example_Allocate 1000000000000 1000000000000 None
      "example_plugin\<lparr>LeaseTime := 3600000000000\<rparr>" example_store
      "example_request [0xaa] ''beta''" example_reply
      "example_reply\<lparr>YourIPAddr := [10, 0, 0, 2],
        Options := [OptionIPAddressLeaseTime \<mapsto> [0, 0, 14, 16]]\<rparr>"]
  by (simp add: example_defs Handler4_unfold Options_Update_def OptIPAddressLeaseTime_def
        BigEndian_PutUint32_def Duration_Round_def go_rem_def Second_def)

text \<open>
  As stated, C8 fails for a lease duration that is not a whole number of seconds: with a
  configured duration of 1.5 s the response carries 2 s.
\<close>

theorem lease_time_is_configured_counterexample:
  "response (Handler4 example_Allocate 1000000000000 1000000000000 None
      (example_plugin\<lparr>LeaseTime := 1500000000\<rparr>) example_store
      (example_request [0xaa] ''beta'') example_reply) =
     Some (example_reply\<lparr>YourIPAddr := [10, 0, 0, 2],
        Options := [OptionIPAddressLeaseTime \<mapsto> [0, 0, 0, 2]]\<rparr>) \<and>
   BigEndian_Uint32 [0, 0, 0, 2] = Some 2 \<and>
   LeaseTime (example_plugin\<lparr>LeaseTime := 1500000000\<rparr>) = 1500000000 \<and>
   2 * Second \<noteq> 1500000000"
  by (simp add: example_defs Handler4_unfold Options_Update_def OptIPAddressLeaseTime_def
        Duration_ToBytes_def BigEndian_PutUint32_def uint32_def go_quot_def
        Duration_Round_def go_rem_def Second_def wrap64_def)

text \<open>
  C9 (renewal monotonicity), as amended. The calls are served at non-decreasing clock
  readings, starting from a store that is not ahead of the table; every expiry on file and
  every expiry the calls compute is a second count that \<open>time.Unix\<close> does not wrap, at
  most 9223371974719179007. From any point of the sequence to any later point, the
  durable record of a client is still there and its expiry has not decreased; the same
  holds for the client's record in the table.
\<close>

theorem expiry_monotone:
  assumes "store_behind p st" and "table_in_range p"
    and "calls_in_range (LeaseTime p) (cs1 @ cs2)" and "sorted (readings (cs1 @ cs2))"
  shows "(\<forall>h r. kv (snd (run Allocate (p, st) cs1)) (consulKVPrefix p, h) = Some r \<longrightarrow>
            (\<exists>r'. kv (snd (run Allocate (p, st) (cs1 @ cs2))) (consulKVPrefix p, h) = Some r' \<and>
                  Expires r \<le> Expires r')) \<and>
         (\<forall>h r. Recordsv4 (fst (run Allocate (p, st) cs1)) h = Some r \<longrightarrow>
            (\<exists>r'. Recordsv4 (fst (run Allocate (p, st) (cs1 @ cs2))) h = Some r' \<and>
                  Expires r \<le> Expires r'))"
proof -
  let ?w = "run Allocate (p, st) cs1"
  from readings_append [OF assms(4)] have s: "sorted (readings cs1)" "sorted (readings cs2)"
    by simp_all
  from calls_in_range_append [OF assms(3)]
  have c: "calls_in_range (LeaseTime p) cs1" "calls_in_range (LeaseTime p) cs2"
    by simp_all
  have b: "store_behind (fst ?w) (snd ?w)" "table_in_range (fst ?w)"
    using run_keeps [of "(p, st)" cs1 Allocate] assms(1,2) c(1) s(1) by simp_all
  have pre: "consulKVPrefix (fst ?w) = consulKVPrefix p"
    using run_prefix [of Allocate "(p, st)" cs1] by simp
  have c2: "calls_in_range (LeaseTime (fst ?w)) cs2"
    using c(2) run_LeaseTime [of Allocate "(p, st)" cs1] by simp
  have durable: "\<exists>r'. kv (snd (run Allocate (p, st) (cs1 @ cs2))) (consulKVPrefix p, h) = Some r' \<and>
      Expires r \<le> Expires r'"
    if "kv (snd ?w) (consulKVPrefix p, h) = Some r" for h r
    using run_durable_mono [OF b c2 s(2), of h r Allocate] that
    unfolding pre run_append by simp
  have table: "\<exists>r'. Recordsv4 (fst (run Allocate (p, st) (cs1 @ cs2))) h = Some r' \<and>
      Expires r \<le> Expires r'"
    if "Recordsv4 (fst ?w) h = Some r" for h r
    using run_table_mono [OF b(2) c2 s(2) that, of Allocate] unfolding run_append by simp
  from durable table show ?thesis by blast
qed

text \<open>
  The lease of \<open>aa\<close>, durable with expiry 4600, is renewed at 2000 s to expiry 5600 and
  asked for again at 2500 s.
\<close>

theorem expiry_monotone_witness:
  "store_behind example_plugin example_store \<and>
   table_in_range example_plugin \<and>
   calls_in_range (LeaseTime example_plugin)
     ([example_call 2000000000000 [0xaa] ''beta''] @
      [example_call 2500000000000 [0xaa] ''beta'']) \<and>
   sorted (readings ([example_call 2000000000000 [0xaa] ''beta''] @
                     [example_call 2500000000000 [0xaa] ''beta''])) \<and>
   kv (snd (run example_Allocate (example_plugin, example_store)
        [example_call 2000000000000 [0xaa] ''beta''])) (consulKVPrefix example_plugin, ''aa'') =
     Some \<lparr>Record.IP = [10, 0, 0, 2], Expires = 5600, Hostname = ''beta''\<rparr> \<and>
   (\<exists>r'. kv (snd (run example_Allocate (example_plugin, example_store)
        ([example_call 2000000000000 [0xaa] ''beta''] @
         [example_call 2500000000000 [0xaa] ''beta'']))) (consulKVPrefix example_plugin, ''aa'') =
       Some r' \<and>
     Expires \<lparr>Record.IP = [10, 0, 0, 2], Expires = 5600, Hostname = ''beta''\<rparr> \<le> Expires r')"
proof -
  have b: "store_behind example_plugin example_store"
    by (simp add: store_behind_def example_plugin_def example_store_def)
  have t: "table_in_range example_plugin"
    by (simp add: table_in_range_def in_Unix_range_def example_plugin_def example_record_def)
  have c: "calls_in_range (LeaseTime example_plugin)
     ([example_call 2000000000000 [0xaa] ''beta''] @
      [example_call 2500000000000 [0xaa] ''beta''])"
    by (simp add: calls_in_range_def example_plugin_def example_call_def Time_Add_def
          round_second)
       (simp add: in_Unix_range_def Time_Unix_def)
  have s: "sorted (readings ([example_call 2000000000000 [0xaa] ''beta''] @
                     [example_call 2500000000000 [0xaa] ''beta'']))"
    by (simp add: readings_def example_call_def)
  have k: "kv (snd (run example_Allocate (example_plugin, example_store)
        [example_call 2000000000000 [0xaa] ''beta''])) (consulKVPrefix example_plugin, ''aa'') =
     Some \<lparr>Record.IP = [10, 0, 0, 2], Expires = 5600, Hostname = ''beta''\<rparr>"
    by (simp add: example_defs example_call_def serve_def Handler4_unfold round_second)
  from expiry_monotone [OF b t c s, of example_Allocate, THEN conjunct1, rule_format, OF k] b t c s k
  show ?thesis by blast
qed

text \<open>
  As stated, C9 fails for a record whose expiry is above that bound: \<open>time.Unix\<close> wraps,
  the renewal test finds the expiry in the past, and the call at 1000 s replaces the
  expiry 9223372036854775807, in the table and in the store, by 4600.
\<close>

theorem expiry_monotone_counterexample:
  "kv (example_store\<lparr>kv := [(''dhcp/'', ''aa'') \<mapsto>
        example_record\<lparr>Expires := 9223372036854775807\<rparr>]\<rparr>) (''dhcp/'', ''aa'') =
     Some \<lparr>Record.IP = [10, 0, 0, 2], Expires = 9223372036854775807, Hostname = ''alpha''\<rparr> \<and>
   sorted (readings [example_call 1000000000000 [0xaa] ''beta'']) \<and>
   kv (snd (run example_Allocate
        (example_plugin\<lparr>Recordsv4 := [''aa'' \<mapsto> example_record\<lparr>Expires := 9223372036854775807\<rparr>]\<rparr>,
         example_store\<lparr>kv := [(''dhcp/'', ''aa'') \<mapsto>
            example_record\<lparr>Expires := 9223372036854775807\<rparr>]\<rparr>)
        [example_call 1000000000000 [0xaa] ''beta''])) (''dhcp/'', ''aa'') =
     Some \<lparr>Record.IP = [10, 0, 0, 2], Expires = 4600, Hostname = ''beta''\<rparr> \<and>
   (4600 :: int) < 9223372036854775807"
  by (simp add: example_defs example_call_def serve_def Handler4_unfold round_second
        readings_def)

text \<open>
  C10 (no validation of the hardware address). The handler serves any hardware address
  without a record the same way: a fresh address is allocated, recorded under the text of
  the hardware address and returned. Nothing is asked of the hardware address; the one
  with no octets is recorded under the empty text, six zero octets under
  \<open>00:00:00:00:00:00\<close>.
\<close>

theorem no_hardware_address_validation:
  assumes "Recordsv4 p (HardwareAddr_String (ClientHWAddr req)) = None"
    and "Allocate (allocator p) \<lparr>IPNet.IP = [], Mask = []\<rparr> = Inr (ip, a')"
  shows "response (Handler4 Allocate now1 now2 outcome p st req resp) =
           Some (resp\<lparr>YourIPAddr := To4 (IPNet.IP ip),
             Options := (Options resp)(OptionIPAddressLeaseTime \<mapsto>
               Duration_ToBytes (Duration_Round (LeaseTime p) Second))\<rparr>) \<and>
         Recordsv4 (plugin (Handler4 Allocate now1 now2 outcome p st req resp)) =
           (Recordsv4 p)(HardwareAddr_String (ClientHWAddr req) \<mapsto>
             \<lparr>Record.IP = To4 (IPNet.IP ip), Expires = (now1 + LeaseTime p) div 1000000000,
              Hostname = HostName req\<rparr>) \<and>
         allocator (plugin (Handler4 Allocate now1 now2 outcome p st req resp)) = a' \<and>
         HardwareAddr_String [] = [] \<and>
         HardwareAddr_String [0, 0, 0, 0, 0, 0] = ''00:00:00:00:00:00''"
  using assms
  by (simp add: Handler4_unfold Options_Update_def OptIPAddressLeaseTime_def Time_Unix_def
        hexByte_def hexDigit_def)

text \<open>A request with no hardware address and one with an all-zero address are given 10.0.0.3.\<close>

theorem no_hardware_address_validation_witness:
  "Recordsv4 example_plugin (HardwareAddr_String (ClientHWAddr (example_request [] ''''))) = None \<and>
   example_Allocate (allocator example_plugin) \<lparr>IPNet.IP = [], Mask = []\<rparr> =
     Inr (\<lparr>IPNet.IP = [10, 0, 0, 3], Mask = [255, 255, 255, 255]\<rparr>, [[10, 0, 0, 3], [10, 0, 0, 2]]) \<and>
   response (Handler4 example_Allocate 1000000000000 1000000000000 None example_plugin
       example_store (example_request [] '''') example_reply) =
     Some (example_reply\<lparr>YourIPAddr := [10, 0, 0, 3],
        Options := [OptionIPAddressLeaseTime \<mapsto> [0, 0, 14, 16]]\<rparr>) \<and>
   Recordsv4 (plugin (Handler4 example_Allocate 1000000000000 1000000000000 None example_plugin
       example_store (example_request [] '''') example_reply)) '''' =
     Some \<lparr>Record.IP = [10, 0, 0, 3], Expires = 4600, Hostname = ''''\<rparr> \<and>
   Recordsv4 example_plugin
     (HardwareAddr_String (ClientHWAddr (example_request [0, 0, 0, 0, 0, 0] ''zero''))) = None \<and>
   Recordsv4 (plugin (Handler4 example_Allocate 1000000000000 1000000000000 None example_plugin
       example_store (example_request [0, 0, 0, 0, 0, 0] ''zero'') example_reply))
       ''00:00:00:00:00:00'' =
     Some \<lparr>Record.IP = [10, 0, 0, 3], Expires = 4600, Hostname = ''zero''\<rparr>"
  using no_hardware_address_validation [of example_plugin "example_request [] ''''"
      example_Allocate "\<lparr>IPNet.IP = [10, 0, 0, 3], Mask = [255, 255, 255, 255]\<rparr>"
      "[[10, 0, 0, 3], [10, 0, 0, 2]]" 1000000000000 1000000000000 None example_store example_reply]
    no_hardware_address_validation [of example_plugin "example_request [0, 0, 0, 0, 0, 0] ''zero''"
      example_Allocate "\<lparr>IPNet.IP = [10, 0, 0, 3], Mask = [255, 255, 255, 255]\<rparr>"
      "[[10, 0, 0, 3], [10, 0, 0, 2]]" 1000000000000 1000000000000 None example_store example_reply]
  by (simp add: example_defs example_Allocate_def example_pool_def To4_def
        Duration_Round_def go_rem_def Second_def)

end
